theory Spec2Isabelle
  imports Main
begin

section \<open>routeBall: capture, storage, live view and orchestration\<close>

text \<open>
  A shallow embedding of the Python sources \<^verbatim>\<open>routeball/config.py\<close>,
  \<^verbatim>\<open>routeball/storage.py\<close>, \<^verbatim>\<open>routeball/capture.py\<close>,
  \<^verbatim>\<open>routeball/stream.py\<close> and \<^verbatim>\<open>main.py\<close>.

  Conventions of the embedding.
  \<^item> An object is a record of its attributes; a method takes the object and returns the
    updated object. A method that raises returns \<open>Inl\<close> of the error \<^emph>\<open>together
    with\<close> the object as the raise left it, since Python keeps every assignment made
    before the raise.
  \<^item> Calls into OpenCV, the file system, the clock and the \<^verbatim>\<open>adb\<close> subprocess are
    not code of this repository. Each method returns the list of such calls it made, in
    order (\<open>effect list\<close>), and reads what they answered from an environment record
    \<open>env\<close>: one field for every answer the source inspects (\<^verbatim>\<open>isOpened()\<close>,
    \<^verbatim>\<open>stat().st_size\<close> or its \<^verbatim>\<open>FileNotFoundError\<close>, the \<open>ret\<close> flag
    of \<^verbatim>\<open>read\<close> and of \<^verbatim>\<open>imencode\<close>, the standard output of
    \<^verbatim>\<open>adb devices\<close>, the formatted time stamp). A library call whose failure the
    source never inspects (\<^verbatim>\<open>Path.mkdir\<close>, \<^verbatim>\<open>release\<close>) is recorded as an
    effect and taken to return.
  \<^item> What fails by the values passed alone is a branch of the model: a \<^verbatim>\<open>str\<close>
    where a method of \<^verbatim>\<open>pathlib.Path\<close> is called raises \<open>AttributeError\<close>, and
    \<^verbatim>\<open>cv2.VideoWriter_fourcc(*codec)\<close>, which takes four characters, raises
    \<open>TypeError\<close> for a codec of any other length.
  \<^item> Logging calls are left out: they change no attribute and no file.
  \<^item> Python integers are \<open>int\<close>. A frame (\<^verbatim>\<open>np.ndarray\<close>) is an image with its
    first two dimensions \<open>rows\<close> and \<open>cols\<close> (\<^verbatim>\<open>frame.shape[:2]\<close>) and its
    pixel bytes.
  \<^item> Frames are mutable arrays held by reference. The capture side therefore works on
    an explicit store of arrays (\<open>heap\<close>), with addresses as references, so that
    \<^verbatim>\<open>self._latest_frame = frame\<close> (an alias) and \<^verbatim>\<open>.copy()\<close> (a new array)
    differ in the model as they do in Python.
\<close>

subsection \<open>pathlib paths\<close>

text \<open>
  A \<^verbatim>\<open>pathlib.Path\<close> on a POSIX system is its root (empty, \<^verbatim>\<open>/\<close>, or
  \<^verbatim>\<open>//\<close> for exactly two leading slashes) and its components; the parser drops
  empty components and \<^verbatim>\<open>.\<close> components. \<open>parse_path\<close> is \<^verbatim>\<open>Path(s)\<close>,
  \<open>str_path\<close> is \<^verbatim>\<open>str(p)\<close>, and \<open>joinpath\<close> is \<^verbatim>\<open>p / s\<close> for a
  string \<open>s\<close>: a rooted right operand replaces the left one.
\<close>

datatype pypath = PurePath string "string list"

fun split_slash :: "string \<Rightarrow> string list" where
  "split_slash [] = [[]]"
| "split_slash (c # cs) =
     (if c = CHR ''/'' then [] # split_slash cs
      else case split_slash cs of [] \<Rightarrow> [[c]] | x # xs \<Rightarrow> (c # x) # xs)"

fun join_slash :: "string list \<Rightarrow> string" where
  "join_slash [] = []"
| "join_slash [x] = x"
| "join_slash (x # y # ys) = x @ ''/'' @ join_slash (y # ys)"

definition path_root :: "string \<Rightarrow> string" where
  "path_root s =
     (if take 3 s = ''///'' then ''/''
      else if take 2 s = ''//'' then ''//''
      else if take 1 s = ''/'' then ''/''
      else [])"

definition parse_path :: "string \<Rightarrow> pypath" where
  "parse_path s = PurePath (path_root s) (filter (\<lambda>x. x \<noteq> [] \<and> x \<noteq> ''.'') (split_slash s))"

fun str_path :: "pypath \<Rightarrow> string" where
  "str_path (PurePath r ps) = (if r = [] \<and> ps = [] then ''.'' else r @ join_slash ps)"

fun joinpath :: "pypath \<Rightarrow> string \<Rightarrow> pypath" where
  "joinpath (PurePath r ps) f =
     (case parse_path f of
        PurePath r' ps' \<Rightarrow> if r' \<noteq> [] then PurePath r' ps' else PurePath r (ps @ ps'))"

text \<open>
  The value of a field annotated \<^verbatim>\<open>Path\<close>. A dataclass does not convert what it
  is given, so the field holds a path object or a plain string.
\<close>

datatype pathlike = PathObj pypath | StrObj string

subsection \<open>config.py\<close>

record CaptureConfig =
  mode :: string
  rtsp_url :: string
  adb_serial :: "string option"
  width :: int
  height :: int
  fps :: int

record StorageConfig =
  output_dir :: pathlike
  filename_prefix :: string
  max_file_size_mb :: int
  codec :: string
  container :: string

record StreamConfig =
  host :: string
  port :: int
  jpeg_quality :: int

record AppConfig =
  capture :: CaptureConfig
  storage :: StorageConfig
  stream :: StreamConfig
  save_locally :: bool
  enable_streaming :: bool

text \<open>The dataclass defaults.\<close>

definition CaptureConfig_default :: CaptureConfig where
  "CaptureConfig_default =
     \<lparr>mode = ''adb'', rtsp_url = ''rtsp://192.168.1.100:8554/camera'', adb_serial = None,
      width = 1280, height = 720, fps = 30\<rparr>"

definition StorageConfig_default :: StorageConfig where
  "StorageConfig_default =
     \<lparr>output_dir = PathObj (parse_path ''recordings''), filename_prefix = ''routeball'', max_file_size_mb = 500,
      codec = ''mp4v'', container = ''.mp4''\<rparr>"

definition StreamConfig_default :: StreamConfig where
  "StreamConfig_default = \<lparr>host = ''0.0.0.0'', port = 8000, jpeg_quality = 80\<rparr>"

subsection \<open>Frames, errors, the outside world\<close>

record frame =
  rows :: nat
  cols :: nat
  pixels :: "nat list"

text \<open>
  The exceptions the sources raise, \<open>AttributeError\<close>, which Python raises for a
  method a value does not have, and \<open>TypeError\<close>, which it raises for a call with
  the wrong number of arguments. \<open>RuntimeError\<close> is the error of a write before
  \<^verbatim>\<open>open()\<close> (the spec's \<open>InvalidState\<close> kind).
\<close>

datatype error =
  IOError | RuntimeError | ConnectionError | ValueError | AttributeError | TypeError

type_synonym path = string

text \<open>A \<^verbatim>\<open>cv2.VideoWriter\<close> object: what it was constructed with, and \<^verbatim>\<open>isOpened()\<close>.\<close>

record VideoWriter =
  vw_path :: path
  vw_fourcc :: string
  vw_fps :: int
  vw_size :: "int \<times> int"
  vw_opened :: bool

text \<open>
  What a \<^verbatim>\<open>cv2.VideoCapture\<close> is constructed from: the RTSP URL, or the
  \<^verbatim>\<open>adb exec-out screenrecord ... | ffmpeg ...\<close> pipeline, kept as its parts (the
  \<^verbatim>\<open>-s serial\<close> arguments, width and height) rather than as the joined string.
\<close>

datatype source = RtspUrl string | AdbPipeline "string list" int int

record VideoCapture =
  vc_source :: source
  vc_opened :: bool

datatype effect =
    Mkdir path
  | WriterCreate VideoWriter
  | WriterWrite VideoWriter frame
  | WriterRelease VideoWriter
  | AdbDevices "string list"
  | CapOpen source
  | CapRelease VideoCapture
  | ServerStart string int

record env =
  timestamp :: string
  writer_opens :: bool
  stat_size :: "path \<Rightarrow> nat option"
  adb_stdout :: string
  cap_opens :: bool
  cap_read :: "frame option"
  imencode :: "frame \<Rightarrow> int \<Rightarrow> bool \<times> nat list"

subsection \<open>storage.py\<close>

record VideoStorage =
  config :: StorageConfig
  writer :: "VideoWriter option"
  current_path :: "pypath option"
  frame_count :: int
  s_fps :: int

text \<open>\<^verbatim>\<open>VideoStorage.__init__\<close>.\<close>

definition VideoStorage_init :: "StorageConfig \<Rightarrow> VideoStorage" where
  "VideoStorage_init c =
     \<lparr>config = c, writer = None, current_path = None, frame_count = 0, s_fps = 30\<rparr>"

text \<open>
  The file name of a recording (\<^verbatim>\<open>open\<close>, the f-string):
  \<^verbatim>\<open>f"{prefix}_{timestamp}{container}"\<close>, the time stamp having the format
  \<^verbatim>\<open>%Y%m%d_%H%M%S\<close>, which changes once a second.
\<close>

definition recording_name :: "env \<Rightarrow> StorageConfig \<Rightarrow> string" where
  "recording_name e c = filename_prefix c @ ''_'' @ timestamp e @ container c"

text \<open>
  \<^verbatim>\<open>VideoStorage.open\<close>. The order of the source is kept: \<^verbatim>\<open>_fps\<close> is
  assigned first; \<^verbatim>\<open>self.config.output_dir.mkdir(...)\<close> raises
  \<open>AttributeError\<close> when \<^verbatim>\<open>output_dir\<close> is a \<^verbatim>\<open>str\<close>; then
  \<^verbatim>\<open>_current_path\<close> is assigned; \<^verbatim>\<open>VideoWriter_fourcc(*codec)\<close> raises
  \<open>TypeError\<close> unless the codec has four characters; then \<^verbatim>\<open>_writer\<close> is
  assigned before the \<^verbatim>\<open>isOpened()\<close> test, and \<^verbatim>\<open>_frame_count\<close> is reset
  only after it. The writer is constructed on \<^verbatim>\<open>str(self._current_path)\<close>.
\<close>

definition storage_open ::
  "env \<Rightarrow> int \<Rightarrow> int \<Rightarrow> int \<Rightarrow> VideoStorage \<Rightarrow> VideoStorage \<times> effect list \<times> (error + pypath)" where
  "storage_open e w h f s =
     (let s1 = s\<lparr>s_fps := f\<rparr>
      in case output_dir (config s) of
           StrObj _ \<Rightarrow> (s1, [], Inl AttributeError)
         | PathObj d \<Rightarrow>
             (let p = joinpath d (recording_name e (config s));
                  s2 = s1\<lparr>current_path := Some p\<rparr>
              in if length (codec (config s)) \<noteq> 4
                 then (s2, [Mkdir (str_path d)], Inl TypeError)
                 else
                   (let wr = \<lparr>vw_path = str_path p, vw_fourcc = codec (config s), vw_fps = f,
                              vw_size = (w, h), vw_opened = writer_opens e\<rparr>;
                        s' = s2\<lparr>writer := Some wr\<rparr>;
                        effs = [Mkdir (str_path d), WriterCreate wr]
                    in if \<not> vw_opened wr then (s', effs, Inl IOError)
                       else (s'\<lparr>frame_count := 0\<rparr>, effs, Inr p))))"

text \<open>
  \<^verbatim>\<open>VideoStorage._should_rotate\<close>. \<^verbatim>\<open>st_size / (1024 * 1024) >= max_file_size_mb\<close>
  divides by a power of two, which is exact in binary floating point for every size
  below \<open>2 ^ 53\<close> bytes; the model compares the integers.
\<close>

definition should_rotate :: "env \<Rightarrow> VideoStorage \<Rightarrow> bool" where
  "should_rotate e s =
     (if max_file_size_mb (config s) \<le> 0 then False
      else case current_path s of
             None \<Rightarrow> False
           | Some p \<Rightarrow>
               (case stat_size e (str_path p) of
                  None \<Rightarrow> False
                | Some sz \<Rightarrow> max_file_size_mb (config s) * (1024 * 1024) \<le> int sz))"

text \<open>\<^verbatim>\<open>VideoStorage.close\<close>.\<close>

definition storage_close :: "VideoStorage \<Rightarrow> VideoStorage \<times> effect list" where
  "storage_close s =
     (case writer s of
        None \<Rightarrow> (s, [])
      | Some wr \<Rightarrow> (s\<lparr>writer := None\<rparr>, [WriterRelease wr]))"

text \<open>
  \<^verbatim>\<open>VideoStorage.write_frame\<close>. One environment serves the whole call: the size it
  reports is the one \<^verbatim>\<open>stat()\<close> sees after \<^verbatim>\<open>self._writer.write(frame)\<close>.
\<close>

definition write_frame ::
  "env \<Rightarrow> frame \<Rightarrow> VideoStorage \<Rightarrow> VideoStorage \<times> effect list \<times> (error + unit)" where
  "write_frame e fr s =
     (case writer s of
        None \<Rightarrow> (s, [], Inl RuntimeError)
      | Some wr \<Rightarrow>
          (let s1 = s\<lparr>frame_count := frame_count s + 1\<rparr>
           in if should_rotate e s1 then
                (let h = int (rows fr); w = int (cols fr);
                     (s2, effs2) = storage_close s1;
                     (s3, effs3, r) = storage_open e w h (s_fps s2) s2
                 in (s3, [WriterWrite wr fr] @ effs2 @ effs3,
                     case r of Inl err \<Rightarrow> Inl err | Inr _ \<Rightarrow> Inr ()))
              else (s1, [WriterWrite wr fr], Inr ())))"

text \<open>The properties \<^verbatim>\<open>is_recording\<close> and \<^verbatim>\<open>current_file\<close>.\<close>

definition is_recording :: "VideoStorage \<Rightarrow> bool" where
  "is_recording s = (case writer s of None \<Rightarrow> False | Some wr \<Rightarrow> vw_opened wr)"

definition current_file :: "VideoStorage \<Rightarrow> pypath option" where
  "current_file s = current_path s"

subsection \<open>capture.py\<close>

text \<open>
  The store of frame arrays. \<open>alloc\<close> is the creation of a new array object: the
  frame \<^verbatim>\<open>cap.read()\<close> returns, or the result of \<^verbatim>\<open>.copy()\<close>. \<open>mutate\<close> is
  an in-place write to an array by whoever holds a reference to it.
\<close>

record heap =
  cells :: "nat \<Rightarrow> frame"
  next_addr :: nat

definition alloc :: "heap \<Rightarrow> frame \<Rightarrow> heap \<times> nat" where
  "alloc h fr = (h\<lparr>cells := (cells h)(next_addr h := fr), next_addr := Suc (next_addr h)\<rparr>, next_addr h)"

definition mutate :: "heap \<Rightarrow> nat \<Rightarrow> frame \<Rightarrow> heap" where
  "mutate h a fr = h\<lparr>cells := (cells h)(a := fr)\<rparr>"

text \<open>
  A \<^verbatim>\<open>GlassCapture\<close> object. \<open>latest_slot\<close> is the attribute
  \<^verbatim>\<open>_latest_frame\<close>: a reference to an array, or \<open>None\<close>. The lock guards single
  assignments and reads and has no sequential content.
\<close>

record GlassCapture =
  cap_config :: CaptureConfig
  cap :: "VideoCapture option"
  running :: bool
  latest_slot :: "nat option"

definition GlassCapture_init :: "CaptureConfig \<Rightarrow> GlassCapture" where
  "GlassCapture_init c = \<lparr>cap_config = c, cap = None, running = False, latest_slot = None\<rparr>"

text \<open>\<^verbatim>\<open>GlassCapture._start_rtsp\<close>.\<close>

definition start_rtsp :: "env \<Rightarrow> GlassCapture \<Rightarrow> GlassCapture \<times> effect list \<times> (error + unit)" where
  "start_rtsp e g =
     (let src = RtspUrl (rtsp_url (cap_config g));
          c = \<lparr>vc_source = src, vc_opened = cap_opens e\<rparr>;
          g' = g\<lparr>cap := Some c\<rparr>
      in if \<not> vc_opened c then (g', [CapOpen src], Inl ConnectionError)
         else (g', [CapOpen src], Inr ()))"

text \<open>\<^verbatim>\<open>"device" in text\<close> and \<^verbatim>\<open>stdout.split("\n", 1)[-1]\<close>.\<close>

fun contains :: "string \<Rightarrow> string \<Rightarrow> bool" where
  "contains sub [] = (sub = [])"
| "contains sub (c # cs) = (take (length sub) (c # cs) = sub \<or> contains sub cs)"

definition after_first_newline :: "string \<Rightarrow> string" where
  "after_first_newline s =
     (case dropWhile (\<lambda>c. c \<noteq> CHR 0x0A) s of [] \<Rightarrow> s | _ # rest \<Rightarrow> rest)"

text \<open>\<^verbatim>\<open>GlassCapture._start_adb\<close>.\<close>

definition start_adb :: "env \<Rightarrow> GlassCapture \<Rightarrow> GlassCapture \<times> effect list \<times> (error + unit)" where
  "start_adb e g =
     (let serial_args = (case adb_serial (cap_config g) of
                           None \<Rightarrow> []
                         | Some sn \<Rightarrow> if sn = [] then [] else [''-s'', sn])
      in if \<not> contains ''device'' (after_first_newline (adb_stdout e))
         then (g, [AdbDevices serial_args], Inl ConnectionError)
         else
           (let src = AdbPipeline serial_args (width (cap_config g)) (height (cap_config g));
                c = \<lparr>vc_source = src, vc_opened = cap_opens e\<rparr>;
                g' = g\<lparr>cap := Some c\<rparr>
            in if \<not> vc_opened c
               then (g', [AdbDevices serial_args, CapOpen src], Inl ConnectionError)
               else (g', [AdbDevices serial_args, CapOpen src], Inr ())))"

text \<open>\<^verbatim>\<open>GlassCapture.start\<close>.\<close>

definition start :: "env \<Rightarrow> GlassCapture \<Rightarrow> GlassCapture \<times> effect list \<times> (error + unit)" where
  "start e g =
     (if mode (cap_config g) = ''rtsp'' then
        (case start_rtsp e g of
           (g', effs, Inl err) \<Rightarrow> (g', effs, Inl err)
         | (g', effs, Inr _) \<Rightarrow> (g'\<lparr>running := True\<rparr>, effs, Inr ()))
      else if mode (cap_config g) = ''adb'' then
        (case start_adb e g of
           (g', effs, Inl err) \<Rightarrow> (g', effs, Inl err)
         | (g', effs, Inr _) \<Rightarrow> (g'\<lparr>running := True\<rparr>, effs, Inr ()))
      else (g, [], Inl ValueError))"

text \<open>
  \<^verbatim>\<open>GlassCapture.read_frame\<close>. \<^verbatim>\<open>self._cap.read()\<close> answers \<open>cap_read e\<close>:
  \<open>None\<close> for \<^verbatim>\<open>ret = False\<close>, otherwise a newly created array. The slot is
  assigned the very reference that is returned.
\<close>

definition read_frame :: "env \<Rightarrow> heap \<Rightarrow> GlassCapture \<Rightarrow> heap \<times> GlassCapture \<times> nat option" where
  "read_frame e h g =
     (if cap g = None \<or> \<not> running g then (h, g, None)
      else case cap_read e of
             None \<Rightarrow> (h, g, None)
           | Some fr \<Rightarrow>
               (let (h', a) = alloc h fr
                in (h', g\<lparr>latest_slot := Some a\<rparr>, Some a)))"

text \<open>The property \<^verbatim>\<open>GlassCapture.latest_frame\<close>: \<^verbatim>\<open>.copy()\<close> creates a new array.\<close>

definition latest_frame :: "heap \<Rightarrow> GlassCapture \<Rightarrow> heap \<times> nat option" where
  "latest_frame h g =
     (case latest_slot g of
        None \<Rightarrow> (h, None)
      | Some a \<Rightarrow> (let (h', b) = alloc h (cells h a) in (h', Some b)))"

text \<open>\<^verbatim>\<open>GlassCapture.stop\<close>.\<close>

definition stop :: "GlassCapture \<Rightarrow> GlassCapture \<times> effect list" where
  "stop g =
     (let g1 = g\<lparr>running := False\<rparr>
      in case cap g1 of
           None \<Rightarrow> (g1, [])
         | Some c \<Rightarrow> (g1\<lparr>cap := None\<rparr>, [CapRelease c]))"

definition is_running :: "GlassCapture \<Rightarrow> bool" where
  "is_running g = running g"

text \<open>
  A caller's view of a capture object: a sequence of method calls, each with the
  environment it meets. \<open>exec_call\<close> runs one call on the store and the object.
\<close>

datatype call = CallStart env | CallRead env | CallLatest | CallStop

definition exec_call :: "call \<Rightarrow> heap \<times> GlassCapture \<Rightarrow> heap \<times> GlassCapture" where
  "exec_call c hg =
     (case c of
        CallStart e \<Rightarrow> (fst hg, fst (start e (snd hg)))
      | CallRead e \<Rightarrow> (case read_frame e (fst hg) (snd hg) of (h', g', _) \<Rightarrow> (h', g'))
      | CallLatest \<Rightarrow> (fst (latest_frame (fst hg) (snd hg)), snd hg)
      | CallStop \<Rightarrow> (fst hg, fst (stop (snd hg))))"

fun run_calls :: "call list \<Rightarrow> heap \<times> GlassCapture \<Rightarrow> heap \<times> GlassCapture" where
  "run_calls [] hg = hg"
| "run_calls (c # cs) hg = run_calls cs (exec_call c hg)"

text \<open>No \<^verbatim>\<open>read_frame\<close> call of the sequence returned a frame.\<close>

fun no_read_succeeds :: "call list \<Rightarrow> heap \<times> GlassCapture \<Rightarrow> bool" where
  "no_read_succeeds [] hg = True"
| "no_read_succeeds (c # cs) hg =
     ((case c of
         CallRead e \<Rightarrow> snd (snd (read_frame e (fst hg) (snd hg))) = None
       | _ \<Rightarrow> True)
      \<and> no_read_succeeds cs (exec_call c hg))"

subsection \<open>stream.py\<close>

text \<open>
  The module global \<^verbatim>\<open>_frame_source\<close> is \<open>None\<close> or a reference to the capture
  object. The responders below take what that reference shows at the time of the call:
  \<open>None\<close>, or the capture object as it is then.
\<close>

datatype response = JsonError string | JpegImage "nat list"

text \<open>\<^verbatim>\<open>snapshot\<close>.\<close>

definition snapshot :: "env \<Rightarrow> heap \<Rightarrow> GlassCapture option \<Rightarrow> heap \<times> response" where
  "snapshot e h src =
     (case src of
        None \<Rightarrow> (h, JsonError ''No capture source available'')
      | Some g \<Rightarrow>
          (case latest_frame h g of
             (h', None) \<Rightarrow> (h', JsonError ''No frame available'')
           | (h', Some b) \<Rightarrow>
               (case imencode e (cells h' b) 90 of
                  (ret, jpeg) \<Rightarrow>
                    if \<not> ret then (h', JsonError ''Failed to encode frame'')
                    else (h', JpegImage jpeg))))"

text \<open>\<^verbatim>\<open>status\<close>.\<close>

definition status :: "GlassCapture option \<Rightarrow> bool" where
  "status src = (case src of None \<Rightarrow> False | Some g \<Rightarrow> is_running g)"

text \<open>
  \<^verbatim>\<open>_generate_mjpeg\<close>. One pass through the body of \<^verbatim>\<open>while True\<close>: it ends
  in \<^verbatim>\<open>continue\<close> (\<open>Retry\<close>) or in \<^verbatim>\<open>yield\<close> (\<open>Emit\<close>). The pass returns the
  outside calls it made, as every method of the model does.
\<close>

datatype iteration = Retry | Emit "nat list"

definition bytes_of :: "string \<Rightarrow> nat list" where
  "bytes_of s = map of_char s"

definition mjpeg_part :: "nat list \<Rightarrow> nat list" where
  "mjpeg_part jpeg =
     bytes_of ''--frame'' @ [13, 10] @ bytes_of ''Content-Type: image/jpeg'' @ [13, 10, 13, 10]
       @ jpeg @ [13, 10]"

definition mjpeg_iteration ::
  "int \<Rightarrow> env \<Rightarrow> heap \<Rightarrow> GlassCapture option \<Rightarrow> heap \<times> effect list \<times> iteration" where
  "mjpeg_iteration quality e h src =
     (case src of
        None \<Rightarrow> (h, [], Retry)
      | Some g \<Rightarrow>
          (case latest_frame h g of
             (h', None) \<Rightarrow> (h', [], Retry)
           | (h', Some b) \<Rightarrow>
               (case imencode e (cells h' b) quality of
                  (ret, jpeg) \<Rightarrow>
                    if \<not> ret then (h', [], Retry)
                    else (h', [], Emit (mjpeg_part jpeg)))))"

text \<open>
  The generator over a finite run of passes. Each pass sees the environment, the store
  and the frame source as the other threads have left them; the result is the
  parts yielded and the outside calls made during these passes.
\<close>

fun generate_mjpeg ::
  "int \<Rightarrow> (env \<times> heap \<times> GlassCapture option) list \<Rightarrow> effect list \<times> nat list list" where
  "generate_mjpeg quality [] = ([], [])"
| "generate_mjpeg quality ((e, h, src) # obs) =
     (case mjpeg_iteration quality e h src of
        (_, effs, Retry) \<Rightarrow>
          (effs @ fst (generate_mjpeg quality obs), snd (generate_mjpeg quality obs))
      | (_, effs, Emit part) \<Rightarrow>
          (effs @ fst (generate_mjpeg quality obs), part # snd (generate_mjpeg quality obs)))"

subsection \<open>main.py\<close>

record Args =
  arg_mode :: string
  arg_rtsp_url :: string
  arg_adb_serial :: "string option"
  arg_width :: int
  arg_height :: int
  arg_fps :: int
  arg_output_dir :: string
  arg_stream_port :: int
  no_save :: bool
  no_stream :: bool

definition make_config :: "Args \<Rightarrow> AppConfig" where
  "make_config a =
     \<lparr>capture = \<lparr>mode = arg_mode a, rtsp_url = arg_rtsp_url a, adb_serial = arg_adb_serial a,
                 width = arg_width a, height = arg_height a, fps = arg_fps a\<rparr>,
      storage = StorageConfig_default\<lparr>output_dir := StrObj (arg_output_dir a)\<rparr>,
      stream = StreamConfig_default\<lparr>port := arg_stream_port a\<rparr>,
      save_locally = (\<not> no_save a),
      enable_streaming = (\<not> no_stream a)\<rparr>"

text \<open>
  The main thread, from the point where the handlers for SIGINT and SIGTERM are
  installed. It is at \<^verbatim>\<open>capture.start()\<close> (\<open>AtStart\<close>), at \<^verbatim>\<open>storage.open\<close>
  (\<open>AtOpen\<close>), at the start of the server thread (\<open>AtServe\<close>), at the head of the
  loop of \<^verbatim>\<open>run_loop\<close> (\<open>InLoop\<close>), or the process has ended: by \<^verbatim>\<open>sys.exit\<close>
  or the return of \<^verbatim>\<open>main\<close> (\<open>Exited\<close> with the exit code), or by an exception that
  nothing catches (\<open>Crashed\<close>).
\<close>

datatype pc = AtStart | AtOpen | AtServe | InLoop | Exited int | Crashed error

record main_state =
  pc :: pc
  m_config :: AppConfig
  m_capture :: GlassCapture
  m_storage :: "VideoStorage option"
  frame_source_set :: bool
  m_heap :: heap
  m_effects :: "effect list"

definition main_init :: "Args \<Rightarrow> heap \<Rightarrow> main_state" where
  "main_init a h =
     (let cfg = make_config a
      in \<lparr>pc = AtStart, m_config = cfg, m_capture = GlassCapture_init (capture cfg),
          m_storage = (if save_locally cfg then Some (VideoStorage_init (storage cfg)) else None),
          frame_source_set = False, m_heap = h, m_effects = []\<rparr>)"

text \<open>The signal handler \<^verbatim>\<open>shutdown\<close>.\<close>

definition shutdown :: "main_state \<Rightarrow> main_state" where
  "shutdown ms =
     (let (g', effs1) = stop (m_capture ms);
          (st', effs2) = (case m_storage ms of
                            None \<Rightarrow> (None, [])
                          | Some s \<Rightarrow> (let (s', effs) = storage_close s in (Some s', effs)))
      in ms\<lparr>m_capture := g', m_storage := st', m_effects := m_effects ms @ effs1 @ effs2,
            pc := Exited 0\<rparr>)"

text \<open>\<^verbatim>\<open>try: capture.start() except ConnectionError: sys.exit(1)\<close>.\<close>

definition do_start :: "env \<Rightarrow> main_state \<Rightarrow> main_state" where
  "do_start e ms =
     (case start e (m_capture ms) of
        (g', effs, r) \<Rightarrow>
          ms\<lparr>m_capture := g', m_effects := m_effects ms @ effs,
             pc := (case r of
                      Inl ConnectionError \<Rightarrow> Exited 1
                    | Inl err \<Rightarrow> Crashed err
                    | Inr _ \<Rightarrow> AtOpen)\<rparr>)"

text \<open>
  \<^verbatim>\<open>if storage: storage.open(width, height, fps)\<close>. Nothing catches what
  \<^verbatim>\<open>open\<close> raises.
\<close>

definition do_open :: "env \<Rightarrow> main_state \<Rightarrow> main_state" where
  "do_open e ms =
     (case m_storage ms of
        None \<Rightarrow> ms\<lparr>pc := AtServe\<rparr>
      | Some s \<Rightarrow>
          (let c = capture (m_config ms)
           in case storage_open e (width c) (height c) (fps c) s of
                (s', effs, r) \<Rightarrow>
                  ms\<lparr>m_storage := Some s', m_effects := m_effects ms @ effs,
                     pc := (case r of Inl err \<Rightarrow> Crashed err | Inr _ \<Rightarrow> AtServe)\<rparr>))"

text \<open>\<^verbatim>\<open>if config.enable_streaming: set_frame_source(capture); server_thread.start()\<close>.\<close>

definition do_serve :: "main_state \<Rightarrow> main_state" where
  "do_serve ms =
     (if enable_streaming (m_config ms)
      then ms\<lparr>frame_source_set := True,
              m_effects := m_effects ms
                @ [ServerStart (host (stream (m_config ms))) (port (stream (m_config ms)))],
              pc := InLoop\<rparr>
      else ms\<lparr>pc := InLoop\<rparr>)"

text \<open>
  One pass of \<^verbatim>\<open>run_loop\<close> with the callback \<^verbatim>\<open>on_frame\<close> of \<^verbatim>\<open>main\<close>. When
  the loop condition fails, \<^verbatim>\<open>run_loop\<close> and \<^verbatim>\<open>main\<close> return and the process
  ends with code 0 (the server thread is a daemon).
\<close>

definition do_loop :: "env \<Rightarrow> main_state \<Rightarrow> main_state" where
  "do_loop e ms =
     (if \<not> running (m_capture ms) then ms\<lparr>pc := Exited 0\<rparr>
      else case read_frame e (m_heap ms) (m_capture ms) of
             (h', g', None) \<Rightarrow> ms\<lparr>m_heap := h', m_capture := g'\<rparr>
           | (h', g', Some a) \<Rightarrow>
               (case m_storage ms of
                  None \<Rightarrow> ms\<lparr>m_heap := h', m_capture := g'\<rparr>
                | Some s \<Rightarrow>
                    (case write_frame e (cells h' a) s of
                       (s', effs, r) \<Rightarrow>
                         ms\<lparr>m_heap := h', m_capture := g', m_storage := Some s',
                            m_effects := m_effects ms @ effs,
                            pc := (case r of Inl err \<Rightarrow> Crashed err | Inr _ \<Rightarrow> InLoop)\<rparr>)))"

text \<open>
  What the process meets next: a termination signal, or the environment of its next
  stretch of code. A signal runs \<^verbatim>\<open>shutdown\<close> wherever the main thread is; a
  process that has ended does nothing more.
\<close>

datatype input = Signal | Tick env

definition ended :: "main_state \<Rightarrow> bool" where
  "ended ms = (case pc ms of Exited _ \<Rightarrow> True | Crashed _ \<Rightarrow> True | _ \<Rightarrow> False)"

definition step :: "input \<Rightarrow> main_state \<Rightarrow> main_state" where
  "step i ms =
     (if ended ms then ms
      else case i of
             Signal \<Rightarrow> shutdown ms
           | Tick e \<Rightarrow>
               (case pc ms of
                  AtStart \<Rightarrow> do_start e ms
                | AtOpen \<Rightarrow> do_open e ms
                | AtServe \<Rightarrow> do_serve ms
                | InLoop \<Rightarrow> do_loop e ms
                | _ \<Rightarrow> ms))"

fun run :: "input list \<Rightarrow> main_state \<Rightarrow> main_state" where
  "run [] ms = ms"
| "run (i # is) ms = run is (step i ms)"

definition main :: "Args \<Rightarrow> heap \<Rightarrow> input list \<Rightarrow> main_state" where
  "main a h is = run is (main_init a h)"

subsection \<open>Call sequences and sample values\<close>

text \<open>
  An invariant of the recorder: while a writer is held, \<^verbatim>\<open>_current_path\<close> is the
  file it was created on, \<^verbatim>\<open>_fps\<close> the rate it was created with, the output
  directory of the configuration is a path object and the codec has four characters
  (\<^verbatim>\<open>open\<close> got past \<^verbatim>\<open>mkdir\<close> and \<^verbatim>\<open>VideoWriter_fourcc\<close>).
\<close>

definition storage_inv :: "VideoStorage \<Rightarrow> bool" where
  "storage_inv s =
     (case writer s of
        None \<Rightarrow> True
      | Some wr \<Rightarrow>
          map_option str_path (current_path s) = Some (vw_path wr) \<and> s_fps s = vw_fps wr
          \<and> (case output_dir (config s) of PathObj _ \<Rightarrow> True | StrObj _ \<Rightarrow> False)
          \<and> length (codec (config s)) = 4)"

text \<open>
  A caller's view of a recorder: a sequence of method calls, each with the environment
  it meets. An exception of one call does not stop the caller from making the next.
\<close>

datatype storage_call = DoOpen env int int int | DoWrite env frame | DoClose

definition exec_storage :: "storage_call \<Rightarrow> VideoStorage \<Rightarrow> VideoStorage" where
  "exec_storage c s =
     (case c of
        DoOpen e w h f \<Rightarrow> fst (storage_open e w h f s)
      | DoWrite e fr \<Rightarrow> fst (write_frame e fr s)
      | DoClose \<Rightarrow> fst (storage_close s))"

fun run_storage :: "storage_call list \<Rightarrow> VideoStorage \<Rightarrow> VideoStorage" where
  "run_storage [] s = s"
| "run_storage (c # cs) s = run_storage cs (exec_storage c s)"

definition never_opened :: "storage_call list \<Rightarrow> bool" where
  "never_opened cs = list_all (\<lambda>c. case c of DoOpen _ _ _ _ \<Rightarrow> False | _ \<Rightarrow> True) cs"

text \<open>
  A stream of frames handed to \<^verbatim>\<open>write_frame\<close> one after the other, as the
  ingestion loop does; the first exception ends it.
\<close>

fun write_frames ::
  "(env \<times> frame) list \<Rightarrow> VideoStorage \<Rightarrow> VideoStorage \<times> effect list \<times> (error + unit)" where
  "write_frames [] s = (s, [], Inr ())"
| "write_frames ((e, fr) # rest) s =
     (case write_frame e fr s of
        (s', effs, Inl err) \<Rightarrow> (s', effs, Inl err)
      | (s', effs, Inr _) \<Rightarrow>
          (case write_frames rest s' of (s'', effs', r) \<Rightarrow> (s'', effs @ effs', r)))"

text \<open>Sample values: a 640 x 480 frame, a world where everything works, one where nothing does.\<close>

definition frame_small :: frame where
  "frame_small = \<lparr>rows = 480, cols = 640, pixels = replicate (480 * 640 * 3) 0\<rparr>"

definition env_ok :: env where
  "env_ok =
     \<lparr>timestamp = ''20240101_120000'', writer_opens = True,
      stat_size = (\<lambda>p. Some (2 * 1024 * 1024)),
      adb_stdout = ''List of devices attached'' @ [CHR 0x0A] @ ''emulator-5554 device'' @ [CHR 0x0A],
      cap_opens = True, cap_read = Some frame_small,
      imencode = (\<lambda>fr q. (True, [255, 216, 255, 217]))\<rparr>"

definition env_down :: env where
  "env_down =
     \<lparr>timestamp = ''20240101_120500'', writer_opens = False,
      stat_size = (\<lambda>p. None),
      adb_stdout = ''List of devices attached'' @ [CHR 0x0A],
      cap_opens = False, cap_read = None,
      imencode = (\<lambda>fr q. (False, []))\<rparr>"

definition frame_hd :: frame where
  "frame_hd = \<lparr>rows = 720, cols = 1280, pixels = replicate (720 * 1280 * 3) 0\<rparr>"

text \<open>
  Two recorders just opened at 1280 x 720 and 30 frames per second: one that rotates at
  1 MB, one with rotation switched off.
\<close>

definition storage_1mb :: VideoStorage where
  "storage_1mb =
     fst (storage_open env_ok 1280 720 30
            (VideoStorage_init (StorageConfig_default\<lparr>max_file_size_mb := 1\<rparr>)))"

definition storage_nolimit :: VideoStorage where
  "storage_nolimit =
     fst (storage_open env_ok 1280 720 30
            (VideoStorage_init (StorageConfig_default\<lparr>max_file_size_mb := 0\<rparr>)))"

text \<open>An empty store, and the default capture object after a successful \<^verbatim>\<open>start()\<close>.\<close>

definition heap0 :: heap where
  "heap0 = \<lparr>cells = (\<lambda>a. \<lparr>rows = 0, cols = 0, pixels = []\<rparr>), next_addr = 0\<rparr>"

definition capture_started :: GlassCapture where
  "capture_started = fst (start env_ok (GlassCapture_init CaptureConfig_default))"

text \<open>
  What one pass of the MJPEG loop sees when there is nothing to send: no source
  attached, or a source whose slot is still empty.
\<close>

definition no_frame :: "env \<times> heap \<times> GlassCapture option \<Rightarrow> bool" where
  "no_frame ob = (case snd (snd ob) of None \<Rightarrow> True | Some g \<Rightarrow> latest_slot g = None)"

text \<open>
  The defaults of \<^verbatim>\<open>parse_args\<close>, the same with \<^verbatim>\<open>--no-save\<close>, and the
  number of capture devices opened by a list of calls.
\<close>

definition Args_default :: Args where
  "Args_default =
     \<lparr>arg_mode = ''adb'', arg_rtsp_url = ''rtsp://192.168.1.100:8554/camera'',
      arg_adb_serial = None, arg_width = 1280, arg_height = 720, arg_fps = 30,
      arg_output_dir = ''recordings'', arg_stream_port = 8000, no_save = False,
      no_stream = False\<rparr>"

definition Args_no_save :: Args where
  "Args_no_save = Args_default\<lparr>no_save := True\<rparr>"

definition cap_opens_in :: "effect list \<Rightarrow> nat" where
  "cap_opens_in effs = length (filter (\<lambda>x. case x of CapOpen _ \<Rightarrow> True | _ \<Rightarrow> False) effs)"

section \<open>Properties\<close>

subsection \<open>Paths\<close>

text \<open>The path operations on the cases where plain concatenation would differ from pathlib.\<close>

lemma pathlib_examples:
  "str_path (joinpath (parse_path []) ''f'') = ''f''"
  "str_path (joinpath (parse_path ''/'') ''f'') = ''/f''"
  "str_path (joinpath (parse_path ''.'') ''f'') = ''f''"
  "str_path (joinpath (parse_path ''a/'') ''f'') = ''a/f''"
  "str_path (joinpath (parse_path ''a'') ''/f'') = ''/f''"
  "str_path (parse_path []) = ''.''"
  by (simp_all add: parse_path_def path_root_def)

lemma recordings_path: "parse_path ''recordings'' = PurePath [] [''recordings'']"
  by (simp add: parse_path_def path_root_def)

lemma recording_file_120000:
  "parse_path ''routeball_20240101_120000.mp4'' = PurePath [] [''routeball_20240101_120000.mp4'']"
  by (simp add: parse_path_def path_root_def)

lemma recording_file_120500:
  "parse_path ''routeball_20240101_120500.mp4'' = PurePath [] [''routeball_20240101_120500.mp4'']"
  by (simp add: parse_path_def path_root_def)

lemma recording_file_120731:
  "parse_path ''routeball_20240101_120731.mp4'' = PurePath [] [''routeball_20240101_120731.mp4'']"
  by (simp add: parse_path_def path_root_def)

subsection \<open>Recorder: the invariant and the shape of a write\<close>

lemma storage_inv_init: "storage_inv (VideoStorage_init c)"
  by (simp add: storage_inv_def VideoStorage_init_def)

lemma storage_open_str:
  "output_dir (config s) = StrObj x \<Longrightarrow>
   storage_open e w h f s = (s\<lparr>s_fps := f\<rparr>, [], Inl AttributeError)"
  by (simp add: storage_open_def)

lemma storage_open_bad_codec:
  "output_dir (config s) = PathObj d \<Longrightarrow> length (codec (config s)) \<noteq> 4 \<Longrightarrow>
   storage_open e w h f s =
     (s\<lparr>s_fps := f, current_path := Some (joinpath d (recording_name e (config s)))\<rparr>,
      [Mkdir (str_path d)], Inl TypeError)"
  by (simp add: storage_open_def Let_def)

lemma storage_open_pathobj:
  "output_dir (config s) = PathObj d \<Longrightarrow> length (codec (config s)) = 4 \<Longrightarrow>
   storage_open e w h f s =
     ((if writer_opens e
       then s\<lparr>s_fps := f, current_path := Some (joinpath d (recording_name e (config s))),
              writer := Some \<lparr>vw_path = str_path (joinpath d (recording_name e (config s))),
                               vw_fourcc = codec (config s), vw_fps = f, vw_size = (w, h),
                               vw_opened = True\<rparr>,
              frame_count := 0\<rparr>
       else s\<lparr>s_fps := f, current_path := Some (joinpath d (recording_name e (config s))),
              writer := Some \<lparr>vw_path = str_path (joinpath d (recording_name e (config s))),
                               vw_fourcc = codec (config s), vw_fps = f, vw_size = (w, h),
                               vw_opened = False\<rparr>\<rparr>),
      [Mkdir (str_path d),
       WriterCreate \<lparr>vw_path = str_path (joinpath d (recording_name e (config s))),
                     vw_fourcc = codec (config s), vw_fps = f, vw_size = (w, h),
                     vw_opened = writer_opens e\<rparr>],
      if writer_opens e then Inr (joinpath d (recording_name e (config s))) else Inl IOError)"
  by (simp add: storage_open_def Let_def)

lemma storage_inv_open: "storage_inv s \<Longrightarrow> storage_inv (fst (storage_open e w h f s))"
proof (cases "output_dir (config s)")
  case (PathObj d)
  assume inv: "storage_inv s"
  show ?thesis
  proof (cases "length (codec (config s)) = 4")
    case True
    with PathObj show ?thesis
      by (simp add: storage_open_pathobj storage_inv_def)
  next
    case False
    with PathObj inv show ?thesis
      by (simp add: storage_open_bad_codec storage_inv_def split: option.splits)
  qed
next
  case (StrObj x)
  assume "storage_inv s"
  with StrObj show ?thesis
    by (simp add: storage_open_str storage_inv_def split: option.splits)
qed

lemma storage_inv_close: "storage_inv (fst (storage_close s))"
  by (simp add: storage_inv_def storage_close_def split: option.splits)

lemma should_rotate_frame_count:
  "should_rotate e (s\<lparr>frame_count := n\<rparr>) = should_rotate e s"
  by (simp add: should_rotate_def split: option.splits)

lemma write_frame_closed:
  "writer s = None \<Longrightarrow> write_frame e fr s = (s, [], Inl RuntimeError)"
  by (simp add: write_frame_def)

lemma write_frame_no_rotate:
  "writer s = Some wr \<Longrightarrow> \<not> should_rotate e s \<Longrightarrow>
   write_frame e fr s = (s\<lparr>frame_count := frame_count s + 1\<rparr>, [WriterWrite wr fr], Inr ())"
  by (simp add: write_frame_def should_rotate_frame_count)

lemma write_frame_rotate:
  "writer s = Some wr \<Longrightarrow> should_rotate e s \<Longrightarrow>
   write_frame e fr s =
     (case storage_open e (int (cols fr)) (int (rows fr)) (s_fps s)
             (s\<lparr>frame_count := frame_count s + 1, writer := None\<rparr>) of
        (s3, effs3, r) \<Rightarrow>
          (s3, [WriterWrite wr fr, WriterRelease wr] @ effs3,
           case r of Inl err \<Rightarrow> Inl err | Inr _ \<Rightarrow> Inr ()))"
  by (simp add: write_frame_def should_rotate_frame_count storage_close_def Let_def
      split: prod.splits)

lemma storage_inv_write: "storage_inv s \<Longrightarrow> storage_inv (fst (write_frame e fr s))"
proof (cases "writer s")
  case None
  assume "storage_inv s"
  with None show ?thesis by (simp add: write_frame_closed)
next
  case (Some wr)
  assume inv: "storage_inv s"
  show ?thesis
  proof (cases "should_rotate e s")
    case True
    have "storage_inv (s\<lparr>frame_count := frame_count s + 1, writer := None\<rparr>)"
      by (simp add: storage_inv_def)
    then have "storage_inv (fst (storage_open e (int (cols fr)) (int (rows fr)) (s_fps s)
             (s\<lparr>frame_count := frame_count s + 1, writer := None\<rparr>)))"
      by (rule storage_inv_open)
    with Some True show ?thesis
      by (auto simp: write_frame_rotate split: prod.splits)
  next
    case False
    with Some inv show ?thesis
      by (simp add: write_frame_no_rotate storage_inv_def)
  qed
qed

lemma storage_inv_exec: "storage_inv s \<Longrightarrow> storage_inv (exec_storage c s)"
  by (cases c) (simp_all add: exec_storage_def storage_inv_open storage_inv_write storage_inv_close)

lemma storage_inv_run: "storage_inv s \<Longrightarrow> storage_inv (run_storage cs s)"
  by (induction cs arbitrary: s) (simp_all add: storage_inv_exec)

lemma storage_inv_reachable: "storage_inv (run_storage cs (VideoStorage_init c))"
  by (simp add: storage_inv_run storage_inv_init)

lemma storage_inv_pathobj:
  "storage_inv s \<Longrightarrow> writer s = Some wr \<Longrightarrow>
   (\<exists>d. output_dir (config s) = PathObj d) \<and> length (codec (config s)) = 4"
  by (cases "output_dir (config s)") (simp_all add: storage_inv_def)

lemma writer_never_opened:
  "writer s = None \<Longrightarrow> never_opened cs \<Longrightarrow> writer (run_storage cs s) = None"
proof (induction cs arbitrary: s)
  case Nil
  then show ?case by simp
next
  case (Cons c cs)
  from Cons.prems have "writer (exec_storage c s) = None"
    by (cases c) (simp_all add: never_opened_def exec_storage_def write_frame_closed storage_close_def)
  moreover from Cons.prems have "never_opened cs"
    by (simp add: never_opened_def)
  ultimately show ?case
    using Cons.IH by simp
qed

lemma run_storage_append: "run_storage (cs @ ds) s = run_storage ds (run_storage cs s)"
  by (induction cs arbitrary: s) simp_all

lemma writer_after_close: "writer (fst (storage_close s)) = None"
  by (simp add: storage_close_def split: option.splits)

lemma write_frame_not_runtime:
  "writer s = Some wr \<Longrightarrow> snd (snd (write_frame e fr s)) \<noteq> Inl RuntimeError"
proof (cases "should_rotate e s")
  case True
  assume "writer s = Some wr"
  with True show ?thesis
    by (cases "output_dir (config s)"; cases "length (codec (config s)) = 4")
      (simp_all add: write_frame_rotate storage_open_pathobj storage_open_bad_codec
        storage_open_str)
next
  case False
  assume "writer s = Some wr"
  with False show ?thesis
    by (simp add: write_frame_no_rotate)
qed

lemma should_rotate_iff:
  "storage_inv s \<Longrightarrow> writer s = Some wr \<Longrightarrow>
   should_rotate e s \<longleftrightarrow>
     (0 < max_file_size_mb (config s) \<and>
      (case stat_size e (vw_path wr) of
         None \<Rightarrow> False
       | Some sz \<Rightarrow> max_file_size_mb (config s) * (1024 * 1024) \<le> int sz))"
  by (cases "current_path s") (simp_all add: should_rotate_def storage_inv_def)

lemma should_rotate_disabled: "max_file_size_mb (config s) \<le> 0 \<Longrightarrow> \<not> should_rotate e s"
  by (simp add: should_rotate_def)

text \<open>
  With a maximum of zero or less no stream of writes rotates, whatever sizes the file
  system reports: every frame goes to the one writer, which is never released.
\<close>

lemma write_frames_no_limit:
  "writer s = Some wr \<Longrightarrow> max_file_size_mb (config s) \<le> 0 \<Longrightarrow>
   write_frames efs s =
     (s\<lparr>frame_count := frame_count s + int (length efs)\<rparr>,
      map (\<lambda>(e, fr). WriterWrite wr fr) efs, Inr ())"
proof (induction efs arbitrary: s)
  case Nil
  then show ?case by simp
next
  case (Cons ef efs)
  obtain e fr where ef: "ef = (e, fr)" by (cases ef)
  from Cons.prems have one:
    "write_frame e fr s = (s\<lparr>frame_count := frame_count s + 1\<rparr>, [WriterWrite wr fr], Inr ())"
    by (simp add: write_frame_no_rotate should_rotate_disabled)
  from Cons.prems have rest:
    "write_frames efs (s\<lparr>frame_count := frame_count s + 1\<rparr>) =
       (s\<lparr>frame_count := frame_count s + 1 + int (length efs)\<rparr>,
        map (\<lambda>(e, fr). WriterWrite wr fr) efs, Inr ())"
    using Cons.IH [of "s\<lparr>frame_count := frame_count s + 1\<rparr>"] by simp
  from ef one rest show ?case
    by (simp add: add.assoc)
qed

text \<open>
  The calls of a rotating write, in their order: the frame to the old writer, the
  release of the old writer, \<^verbatim>\<open>mkdir\<close>, and the creation of a writer on the path
  that \<^verbatim>\<open>open()\<close> builds from the clock.
\<close>

lemma write_frame_rotate_effects:
  "writer s = Some wr \<Longrightarrow> should_rotate e s \<Longrightarrow> output_dir (config s) = PathObj d \<Longrightarrow>
   length (codec (config s)) = 4 \<Longrightarrow>
   write_frame e fr s =
     (fst (storage_open e (int (cols fr)) (int (rows fr)) (s_fps s)
             (s\<lparr>frame_count := frame_count s + 1, writer := None\<rparr>)),
      [WriterWrite wr fr, WriterRelease wr, Mkdir (str_path d),
       WriterCreate
         \<lparr>vw_path = str_path (joinpath d (recording_name e (config s))),
          vw_fourcc = codec (config s), vw_fps = s_fps s,
          vw_size = (int (cols fr), int (rows fr)), vw_opened = writer_opens e\<rparr>],
      if writer_opens e then Inr () else Inl IOError)"
  by (simp add: write_frame_rotate storage_open_pathobj)

lemma storage_1mb_eq:
  "storage_1mb =
     \<lparr>config = StorageConfig_default\<lparr>max_file_size_mb := 1\<rparr>,
      writer = Some \<lparr>vw_path = ''recordings/routeball_20240101_120000.mp4'', vw_fourcc = ''mp4v'',
                     vw_fps = 30, vw_size = (1280, 720), vw_opened = True\<rparr>,
      current_path = Some (PurePath [] [''recordings'', ''routeball_20240101_120000.mp4'']),
      frame_count = 0, s_fps = 30\<rparr>"
  by (simp add: storage_1mb_def storage_open_def Let_def env_ok_def VideoStorage_init_def
      StorageConfig_default_def recording_name_def recordings_path recording_file_120000)

lemma storage_nolimit_eq:
  "storage_nolimit =
     \<lparr>config = StorageConfig_default\<lparr>max_file_size_mb := 0\<rparr>,
      writer = Some \<lparr>vw_path = ''recordings/routeball_20240101_120000.mp4'', vw_fourcc = ''mp4v'',
                     vw_fps = 30, vw_size = (1280, 720), vw_opened = True\<rparr>,
      current_path = Some (PurePath [] [''recordings'', ''routeball_20240101_120000.mp4'']),
      frame_count = 0, s_fps = 30\<rparr>"
  by (simp add: storage_nolimit_def storage_open_def Let_def env_ok_def VideoStorage_init_def
      StorageConfig_default_def recording_name_def recordings_path recording_file_120000)

subsection \<open>C6: writing to a closed recorder\<close>

text \<open>
  Claim C6. On a recorder in the Closed state (\<^verbatim>\<open>_writer\<close> is \<open>None\<close>), which
  is the state of a recorder on which \<^verbatim>\<open>open()\<close> was never called and the state
  after every \<^verbatim>\<open>close()\<close>, \<^verbatim>\<open>write_frame\<close> raises \<open>RuntimeError\<close> (the
  InvalidState kind), makes no outside call and leaves every attribute as it was.
\<close>

theorem write_frame_on_closed:
  "(writer s = None \<longrightarrow> write_frame e fr s = (s, [], Inl RuntimeError))
   \<and> (never_opened cs \<longrightarrow>
        write_frame e fr (run_storage cs (VideoStorage_init c))
          = (run_storage cs (VideoStorage_init c), [], Inl RuntimeError))
   \<and> write_frame e fr (run_storage (cs @ [DoClose]) (VideoStorage_init c))
        = (run_storage (cs @ [DoClose]) (VideoStorage_init c), [], Inl RuntimeError)"
proof (intro conjI impI)
  assume "writer s = None"
  then show "write_frame e fr s = (s, [], Inl RuntimeError)"
    by (rule write_frame_closed)
next
  assume "never_opened cs"
  then have "writer (run_storage cs (VideoStorage_init c)) = None"
    by (simp add: writer_never_opened VideoStorage_init_def)
  then show "write_frame e fr (run_storage cs (VideoStorage_init c))
          = (run_storage cs (VideoStorage_init c), [], Inl RuntimeError)"
    by (rule write_frame_closed)
next
  have "writer (run_storage (cs @ [DoClose]) (VideoStorage_init c)) = None"
    by (simp add: run_storage_append exec_storage_def writer_after_close)
  then show "write_frame e fr (run_storage (cs @ [DoClose]) (VideoStorage_init c))
        = (run_storage (cs @ [DoClose]) (VideoStorage_init c), [], Inl RuntimeError)"
    by (rule write_frame_closed)
qed

text \<open>Witness for C6: a new recorder, one written to and closed, one opened and closed.\<close>

theorem write_frame_on_closed_witness:
  "writer (VideoStorage_init StorageConfig_default) = None
   \<and> write_frame env_ok frame_small (VideoStorage_init StorageConfig_default)
       = (VideoStorage_init StorageConfig_default, [], Inl RuntimeError)
   \<and> never_opened [DoWrite env_ok frame_small, DoClose]
   \<and> write_frame env_ok frame_small
        (run_storage [DoWrite env_ok frame_small, DoClose] (VideoStorage_init StorageConfig_default))
       = (run_storage [DoWrite env_ok frame_small, DoClose] (VideoStorage_init StorageConfig_default),
          [], Inl RuntimeError)
   \<and> write_frame env_ok frame_small
        (run_storage ([DoOpen env_ok 1280 720 30] @ [DoClose]) (VideoStorage_init StorageConfig_default))
       = (run_storage ([DoOpen env_ok 1280 720 30] @ [DoClose]) (VideoStorage_init StorageConfig_default),
          [], Inl RuntimeError)"
proof -
  have a: "writer (VideoStorage_init StorageConfig_default) = None"
    by (simp add: VideoStorage_init_def)
  have b: "never_opened [DoWrite env_ok frame_small, DoClose]"
    by (simp add: never_opened_def)
  show ?thesis
    using a b
      write_frame_on_closed [of "VideoStorage_init StorageConfig_default" env_ok frame_small
        "[DoWrite env_ok frame_small, DoClose]" StorageConfig_default]
      write_frame_on_closed [of "VideoStorage_init StorageConfig_default" env_ok frame_small
        "[DoOpen env_ok 1280 720 30]" StorageConfig_default]
    by simp
qed

text \<open>The recorder with rotation switched off takes two frames while its file is at 2 MB.\<close>

lemma write_frames_no_limit_example:
  "write_frames [(env_ok, frame_small), (env_ok, frame_hd)] storage_nolimit =
     (storage_nolimit\<lparr>frame_count := 2\<rparr>,
      [WriterWrite \<lparr>vw_path = ''recordings/routeball_20240101_120000.mp4'', vw_fourcc = ''mp4v'',
                     vw_fps = 30, vw_size = (1280, 720), vw_opened = True\<rparr> frame_small,
       WriterWrite \<lparr>vw_path = ''recordings/routeball_20240101_120000.mp4'', vw_fourcc = ''mp4v'',
                     vw_fps = 30, vw_size = (1280, 720), vw_opened = True\<rparr> frame_hd],
      Inr ())"
proof -
  let ?w = "\<lparr>vw_path = ''recordings/routeball_20240101_120000.mp4'', vw_fourcc = ''mp4v'',
                     vw_fps = 30, vw_size = (1280, 720), vw_opened = True\<rparr>"
  have w: "writer storage_nolimit = Some ?w"
    by (simp add: storage_nolimit_eq)
  have m: "max_file_size_mb (config storage_nolimit) \<le> 0"
    by (simp add: storage_nolimit_eq)
  have f: "frame_count storage_nolimit = 0"
    by (simp add: storage_nolimit_eq)
  show ?thesis
    using write_frames_no_limit [OF w m, of "[(env_ok, frame_small), (env_ok, frame_hd)]"]
    by (simp add: f del: write_frames.simps)
qed

subsection \<open>C9: a failed open is not rolled back\<close>

text \<open>
  Claim C9. When \<^verbatim>\<open>open()\<close> raises \<open>IOError\<close> because the writer did not open,
  the recorder is not rolled back: \<^verbatim>\<open>_current_path\<close> is already the new file and
  \<^verbatim>\<open>_writer\<close> is already the new, unopened writer object (the frame counter is
  not reset). A \<^verbatim>\<open>write_frame\<close> that follows therefore does not raise the
  \<open>RuntimeError\<close> of a closed recorder.
\<close>

theorem failed_open_keeps_writer:
  assumes "snd (snd (storage_open e w h f s)) = Inl IOError"
  shows "\<exists>d. output_dir (config s) = PathObj d
           \<and> current_path (fst (storage_open e w h f s)) =
               Some (joinpath d (recording_name e (config s)))
           \<and> writer (fst (storage_open e w h f s)) =
               Some \<lparr>vw_path = str_path (joinpath d (recording_name e (config s))),
                     vw_fourcc = codec (config s), vw_fps = f, vw_size = (w, h),
                     vw_opened = False\<rparr>
           \<and> frame_count (fst (storage_open e w h f s)) = frame_count s
           \<and> \<not> is_recording (fst (storage_open e w h f s))
           \<and> snd (snd (write_frame e' fr (fst (storage_open e w h f s)))) \<noteq> Inl RuntimeError"
proof (cases "output_dir (config s)")
  case (StrObj x)
  with assms show ?thesis
    by (simp add: storage_open_str)
next
  case (PathObj d)
  with assms have len: "length (codec (config s)) = 4"
    by (cases "length (codec (config s)) = 4") (simp_all add: storage_open_bad_codec)
  with PathObj assms have closed: "\<not> writer_opens e"
    by (simp add: storage_open_pathobj split: if_splits)
  with PathObj len have st: "fst (storage_open e w h f s) =
      s\<lparr>s_fps := f, current_path := Some (joinpath d (recording_name e (config s))),
        writer := Some \<lparr>vw_path = str_path (joinpath d (recording_name e (config s))),
                         vw_fourcc = codec (config s), vw_fps = f, vw_size = (w, h),
                         vw_opened = False\<rparr>\<rparr>"
    by (simp add: storage_open_pathobj)
  then have wr: "writer (fst (storage_open e w h f s)) =
      Some \<lparr>vw_path = str_path (joinpath d (recording_name e (config s))),
            vw_fourcc = codec (config s), vw_fps = f, vw_size = (w, h),
            vw_opened = False\<rparr>"
    by simp
  then have "snd (snd (write_frame e' fr (fst (storage_open e w h f s)))) \<noteq> Inl RuntimeError"
    by (rule write_frame_not_runtime)
  with PathObj st show ?thesis
    by (simp add: is_recording_def)
qed

text \<open>
  Witness for C9: the default recorder in a world where no writer opens. The write that
  follows returns normally, having handed the frame to the unopened writer.
\<close>

theorem failed_open_keeps_writer_witness:
  "snd (snd (storage_open env_down 1280 720 30 (VideoStorage_init StorageConfig_default))) = Inl IOError
   \<and> current_path (fst (storage_open env_down 1280 720 30 (VideoStorage_init StorageConfig_default)))
       = Some (PurePath [] [''recordings'', ''routeball_20240101_120500.mp4''])
   \<and> writer (fst (storage_open env_down 1280 720 30 (VideoStorage_init StorageConfig_default)))
       = Some \<lparr>vw_path = ''recordings/routeball_20240101_120500.mp4'', vw_fourcc = ''mp4v'',
               vw_fps = 30, vw_size = (1280, 720), vw_opened = False\<rparr>
   \<and> write_frame env_down frame_small
        (fst (storage_open env_down 1280 720 30 (VideoStorage_init StorageConfig_default)))
       = ((fst (storage_open env_down 1280 720 30 (VideoStorage_init StorageConfig_default)))
            \<lparr>frame_count := 1\<rparr>,
          [WriterWrite \<lparr>vw_path = ''recordings/routeball_20240101_120500.mp4'', vw_fourcc = ''mp4v'',
               vw_fps = 30, vw_size = (1280, 720), vw_opened = False\<rparr> frame_small],
          Inr ())"
proof -
  let ?s = "VideoStorage_init StorageConfig_default"
  have st: "storage_open env_down 1280 720 30 ?s =
      (?s\<lparr>s_fps := 30,
         current_path := Some (PurePath [] [''recordings'', ''routeball_20240101_120500.mp4'']),
         writer := Some \<lparr>vw_path = ''recordings/routeball_20240101_120500.mp4'', vw_fourcc = ''mp4v'',
               vw_fps = 30, vw_size = (1280, 720), vw_opened = False\<rparr>\<rparr>,
       [Mkdir ''recordings'',
        WriterCreate \<lparr>vw_path = ''recordings/routeball_20240101_120500.mp4'', vw_fourcc = ''mp4v'',
               vw_fps = 30, vw_size = (1280, 720), vw_opened = False\<rparr>],
       Inl IOError)"
    by (simp add: storage_open_def Let_def env_down_def VideoStorage_init_def
        StorageConfig_default_def recording_name_def recordings_path recording_file_120500)
  have h: "snd (snd (storage_open env_down 1280 720 30 ?s)) = Inl IOError"
    by (simp add: st)
  have w: "write_frame env_down frame_small (fst (storage_open env_down 1280 720 30 ?s))
       = ((fst (storage_open env_down 1280 720 30 ?s))\<lparr>frame_count := 1\<rparr>,
          [WriterWrite \<lparr>vw_path = ''recordings/routeball_20240101_120500.mp4'', vw_fourcc = ''mp4v'',
               vw_fps = 30, vw_size = (1280, 720), vw_opened = False\<rparr> frame_small],
          Inr ())"
    by (simp only: st fst_conv)
      (simp add: write_frame_def should_rotate_def env_down_def VideoStorage_init_def Let_def)
  from failed_open_keeps_writer [OF h, where e' = env_down and fr = frame_small]
  have "writer (fst (storage_open env_down 1280 720 30 ?s)) \<noteq> None"
    by auto
  with h w show ?thesis
    by (simp add: st)
qed

subsection \<open>C1: the rotation policy\<close>

text \<open>
  Claim C1 holds in its last part (\<open>write_frames_no_limit\<close>: with a maximum of zero or
  less nothing ever rotates) and in the order of the calls of a rotating write
  (\<open>write_frame_rotate_effects\<close>: the triggering frame goes to the old writer before
  that writer is released). It fails in what the rotation opens. The name of the new
  file is built from a time stamp that changes once a second, so a rotation in the
  second in which the current file was opened creates the ``new'' writer on the file
  that was just released: the recorder does not rotate to a new file, as the docstring
  of \<^verbatim>\<open>write_frame\<close> says it does, and the frames of the old file, the triggering
  frame among them, are written over.

  Claim C1, at the failing input: a recorder with a 1 MB limit, opened at 12:00:00,
  receives a 1280 x 720 frame while the clock still shows 12:00:00 and the file has
  reached 2 MB. The write rotates; the writer created is the writer released, on the
  same path, and the recorder after the call is the recorder as \<^verbatim>\<open>open()\<close> had
  left it.
\<close>

theorem rotation_within_one_second:
  "timestamp env_ok = ''20240101_120000''
   \<and> writer storage_1mb =
       Some \<lparr>vw_path = ''recordings/routeball_20240101_120000.mp4'', vw_fourcc = ''mp4v'',
             vw_fps = 30, vw_size = (1280, 720), vw_opened = True\<rparr>
   \<and> should_rotate env_ok storage_1mb
   \<and> write_frame env_ok frame_hd storage_1mb =
       (storage_1mb,
        [WriterWrite \<lparr>vw_path = ''recordings/routeball_20240101_120000.mp4'', vw_fourcc = ''mp4v'',
                       vw_fps = 30, vw_size = (1280, 720), vw_opened = True\<rparr> frame_hd,
         WriterRelease \<lparr>vw_path = ''recordings/routeball_20240101_120000.mp4'', vw_fourcc = ''mp4v'',
                         vw_fps = 30, vw_size = (1280, 720), vw_opened = True\<rparr>,
         Mkdir ''recordings'',
         WriterCreate \<lparr>vw_path = ''recordings/routeball_20240101_120000.mp4'', vw_fourcc = ''mp4v'',
                        vw_fps = 30, vw_size = (1280, 720), vw_opened = True\<rparr>],
        Inr ())"
proof -
  let ?w = "\<lparr>vw_path = ''recordings/routeball_20240101_120000.mp4'', vw_fourcc = ''mp4v'',
                     vw_fps = 30, vw_size = (1280, 720), vw_opened = True\<rparr>"
  have t: "timestamp env_ok = ''20240101_120000''"
    by (simp add: env_ok_def)
  have w: "writer storage_1mb = Some ?w"
    by (simp add: storage_1mb_eq)
  have r: "should_rotate env_ok storage_1mb"
    by (simp add: storage_1mb_eq should_rotate_def env_ok_def StorageConfig_default_def)
  have wf: "write_frame env_ok frame_hd storage_1mb =
       (storage_1mb,
        [WriterWrite ?w frame_hd, WriterRelease ?w, Mkdir ''recordings'', WriterCreate ?w],
        Inr ())"
    by (simp add: storage_1mb_eq write_frame_def should_rotate_def storage_close_def
        storage_open_def Let_def env_ok_def StorageConfig_default_def recording_name_def
        recordings_path recording_file_120000 frame_hd_def)
  from t w r wf show ?thesis
    by simp
qed

subsection \<open>C3: the resolution after a rotation\<close>

text \<open>
  Claim C3 as stated (the new session has the resolution of the session just closed)
  fails: a recorder opened at 1280 x 720 that rotates on a 640 x 480 frame reopens at
  640 x 480, because the rotation takes \<^verbatim>\<open>h, w = frame.shape[:2]\<close>.
\<close>

theorem rotation_keeps_resolution_counterexample:
  "writer storage_1mb =
     Some \<lparr>vw_path = ''recordings/routeball_20240101_120000.mp4'', vw_fourcc = ''mp4v'',
           vw_fps = 30, vw_size = (1280, 720), vw_opened = True\<rparr>
   \<and> should_rotate (env_ok\<lparr>timestamp := ''20240101_120731''\<rparr>) storage_1mb
   \<and> writer (fst (write_frame (env_ok\<lparr>timestamp := ''20240101_120731''\<rparr>) frame_small storage_1mb)) =
       Some \<lparr>vw_path = ''recordings/routeball_20240101_120731.mp4'', vw_fourcc = ''mp4v'',
             vw_fps = 30, vw_size = (640, 480), vw_opened = True\<rparr>"
proof -
  let ?e = "env_ok\<lparr>timestamp := ''20240101_120731''\<rparr>"
  let ?w = "\<lparr>vw_path = ''recordings/routeball_20240101_120000.mp4'', vw_fourcc = ''mp4v'',
                     vw_fps = 30, vw_size = (1280, 720), vw_opened = True\<rparr>"
  have w: "writer storage_1mb = Some ?w"
    by (simp add: storage_1mb_eq)
  have r: "should_rotate ?e storage_1mb"
    by (simp add: storage_1mb_eq should_rotate_def env_ok_def StorageConfig_default_def)
  have "writer (fst (write_frame ?e frame_small storage_1mb)) =
       Some \<lparr>vw_path = ''recordings/routeball_20240101_120731.mp4'', vw_fourcc = ''mp4v'',
             vw_fps = 30, vw_size = (640, 480), vw_opened = True\<rparr>"
    by (simp add: storage_1mb_eq write_frame_def should_rotate_def storage_close_def
        storage_open_def Let_def env_ok_def StorageConfig_default_def recording_name_def
        recordings_path recording_file_120731 frame_small_def)
  with w r show ?thesis
    by simp
qed

text \<open>
  Claim C3, amended. For every rotation triggered by \<^verbatim>\<open>write_frame\<close>, the new
  session is opened with the frame rate of the session just closed (the rate the
  recorder was opened with) and with the width and height of the triggering frame;
  that is the resolution of the closed session whenever the frame has that resolution.
\<close>

theorem rotation_reopens_with_frame_size:
  assumes "storage_inv s" and "writer s = Some wr" and "should_rotate e s"
  shows "map_option vw_fps (writer (fst (write_frame e fr s))) = Some (vw_fps wr)
         \<and> map_option vw_size (writer (fst (write_frame e fr s))) = Some (int (cols fr), int (rows fr))
         \<and> s_fps (fst (write_frame e fr s)) = s_fps s
         \<and> ((int (cols fr), int (rows fr)) = vw_size wr \<longrightarrow>
              map_option vw_size (writer (fst (write_frame e fr s))) = Some (vw_size wr))"
proof -
  from assms(1,2) have f: "s_fps s = vw_fps wr"
    by (simp add: storage_inv_def)
  from assms(1,2) obtain d where d: "output_dir (config s) = PathObj d"
    and len: "length (codec (config s)) = 4"
    using storage_inv_pathobj by blast
  have w: "writer (fst (write_frame e fr s)) =
      Some \<lparr>vw_path = str_path (joinpath d (recording_name e (config s))),
            vw_fourcc = codec (config s), vw_fps = s_fps s,
            vw_size = (int (cols fr), int (rows fr)), vw_opened = writer_opens e\<rparr>"
    by (simp add: write_frame_rotate_effects [OF assms(2,3) d len] storage_open_pathobj d len)
  have g: "s_fps (fst (write_frame e fr s)) = s_fps s"
    by (simp add: write_frame_rotate_effects [OF assms(2,3) d len] storage_open_pathobj d len)
  from f w g show ?thesis
    by simp
qed

text \<open>Witness for C3: the 1 MB recorder rotating on a 640 x 480 and on a 1280 x 720 frame.\<close>

theorem rotation_reopens_with_frame_size_witness:
  "storage_inv storage_1mb
   \<and> should_rotate env_ok storage_1mb
   \<and> map_option vw_fps (writer storage_1mb) = Some 30
   \<and> map_option vw_fps (writer (fst (write_frame env_ok frame_small storage_1mb))) = Some 30
   \<and> map_option vw_size (writer (fst (write_frame env_ok frame_small storage_1mb))) = Some (640, 480)
   \<and> map_option vw_size
        (writer (fst (write_frame env_ok frame_hd storage_1mb)))
       = Some (1280, 720)"
proof -
  let ?w = "\<lparr>vw_path = ''recordings/routeball_20240101_120000.mp4'', vw_fourcc = ''mp4v'',
                     vw_fps = 30, vw_size = (1280, 720), vw_opened = True\<rparr>"
  have i: "storage_inv storage_1mb"
    by (simp add: storage_1mb_eq storage_inv_def StorageConfig_default_def)
  have w: "writer storage_1mb = Some ?w"
    by (simp add: storage_1mb_eq)
  have r: "should_rotate env_ok storage_1mb"
    by (simp add: storage_1mb_eq should_rotate_def env_ok_def StorageConfig_default_def)
  show ?thesis
    using i r w
      rotation_reopens_with_frame_size [OF i w r, of frame_small]
      rotation_reopens_with_frame_size [OF i w r, of frame_hd]
    by (simp add: frame_small_def frame_hd_def)
qed

subsection \<open>Capture: reads, the slot and copies\<close>

lemma stop_latest_slot: "latest_slot (fst (stop g)) = latest_slot g"
  by (simp add: stop_def Let_def split: option.splits)

lemma start_latest_slot: "latest_slot (fst (start e g)) = latest_slot g"
  by (simp add: start_def start_rtsp_def start_adb_def Let_def split: option.splits)

lemma read_frame_success:
  "cap g \<noteq> None \<Longrightarrow> running g \<Longrightarrow> cap_read e = Some fr \<Longrightarrow>
   read_frame e h g =
     (h\<lparr>cells := (cells h)(next_addr h := fr), next_addr := Suc (next_addr h)\<rparr>,
      g\<lparr>latest_slot := Some (next_addr h)\<rparr>, Some (next_addr h))"
  by (simp add: read_frame_def alloc_def)

lemma read_frame_result:
  "snd (snd (read_frame e h g)) = Some a \<Longrightarrow>
   cap g \<noteq> None \<and> running g \<and> cap_read e \<noteq> None \<and> a = next_addr h"
  by (auto simp: read_frame_def alloc_def split: if_splits option.splits)

lemma read_frame_none:
  "snd (snd (read_frame e h g)) = None \<Longrightarrow> read_frame e h g = (h, g, None)"
  by (auto simp: read_frame_def alloc_def split: if_splits option.splits)

lemma latest_frame_empty: "latest_slot g = None \<Longrightarrow> latest_frame h g = (h, None)"
  by (simp add: latest_frame_def)

lemma latest_frame_copy:
  "latest_slot g = Some a \<Longrightarrow>
   latest_frame h g =
     (h\<lparr>cells := (cells h)(next_addr h := cells h a), next_addr := Suc (next_addr h)\<rparr>,
      Some (next_addr h))"
  by (simp add: latest_frame_def alloc_def)

lemma exec_call_slot_none:
  "latest_slot (snd hg) = None \<Longrightarrow> no_read_succeeds (c # cs) hg \<Longrightarrow>
   latest_slot (snd (exec_call c hg)) = None"
proof (cases c)
  case (CallRead e)
  assume "latest_slot (snd hg) = None" and "no_read_succeeds (c # cs) hg"
  with CallRead show ?thesis
    by (simp add: exec_call_def read_frame_none)
qed (simp_all add: exec_call_def start_latest_slot stop_latest_slot)

lemma run_calls_slot_none:
  "latest_slot (snd hg) = None \<Longrightarrow> no_read_succeeds cs hg \<Longrightarrow>
   latest_slot (snd (run_calls cs hg)) = None"
proof (induction cs arbitrary: hg)
  case Nil
  then show ?case by simp
next
  case (Cons c cs)
  from Cons.prems have "latest_slot (snd (exec_call c hg)) = None"
    by (rule exec_call_slot_none)
  moreover from Cons.prems have "no_read_succeeds cs (exec_call c hg)"
    by simp
  ultimately show ?case
    using Cons.IH by simp
qed

lemma capture_started_eq:
  "capture_started =
     \<lparr>cap_config = CaptureConfig_default,
      cap = Some \<lparr>vc_source = AdbPipeline [] 1280 720, vc_opened = True\<rparr>,
      running = True, latest_slot = None\<rparr>"
  by (simp add: capture_started_def start_def start_adb_def Let_def GlassCapture_init_def
      CaptureConfig_default_def env_ok_def after_first_newline_def)

subsection \<open>C2: the latest-frame slot\<close>

text \<open>
  Claim C2. When \<^verbatim>\<open>read_frame\<close> returns a frame, the slot \<^verbatim>\<open>_latest_frame\<close>
  holds that very frame (the array the capture delivered) when the call returns.
  \<^verbatim>\<open>latest_frame\<close> then returns a new array with the same content: writing into
  the returned array leaves the array in the slot as it was, and a later
  \<^verbatim>\<open>latest_frame\<close> still yields the captured content. On a capture object on which
  no \<^verbatim>\<open>read_frame\<close> has returned a frame yet, whatever else was called,
  \<^verbatim>\<open>latest_frame\<close> returns \<open>None\<close>.
\<close>

theorem read_frame_fills_slot:
  "(snd (snd (read_frame e h g)) = Some a \<longrightarrow>
      (let h1 = fst (read_frame e h g);
           g1 = fst (snd (read_frame e h g));
           h2 = fst (latest_frame h1 g1);
           b = next_addr h1
       in latest_slot g1 = Some a
          \<and> cap_read e = Some (cells h1 a)
          \<and> snd (latest_frame h1 g1) = Some b
          \<and> b \<noteq> a
          \<and> cells h2 b = cells h1 a
          \<and> cells (mutate h2 b fr') a = cells h1 a
          \<and> map_option (cells (fst (latest_frame (mutate h2 b fr') g1)))
               (snd (latest_frame (mutate h2 b fr') g1)) = Some (cells h1 a)))
   \<and> (no_read_succeeds cs (h, GlassCapture_init c) \<longrightarrow>
        latest_frame (fst (run_calls cs (h, GlassCapture_init c)))
                     (snd (run_calls cs (h, GlassCapture_init c)))
          = (fst (run_calls cs (h, GlassCapture_init c)), None))"
proof (intro conjI impI)
  assume ok: "snd (snd (read_frame e h g)) = Some a"
  then have pre: "cap g \<noteq> None" "running g" "cap_read e \<noteq> None" "a = next_addr h"
    using read_frame_result [of e h g a] by simp_all
  then obtain fr where fr: "cap_read e = Some fr"
    by auto
  have rd: "read_frame e h g =
     (h\<lparr>cells := (cells h)(next_addr h := fr), next_addr := Suc (next_addr h)\<rparr>,
      g\<lparr>latest_slot := Some (next_addr h)\<rparr>, Some (next_addr h))"
    using pre(1,2) fr by (rule read_frame_success)
  show "let h1 = fst (read_frame e h g);
           g1 = fst (snd (read_frame e h g));
           h2 = fst (latest_frame h1 g1);
           b = next_addr h1
       in latest_slot g1 = Some a
          \<and> cap_read e = Some (cells h1 a)
          \<and> snd (latest_frame h1 g1) = Some b
          \<and> b \<noteq> a
          \<and> cells h2 b = cells h1 a
          \<and> cells (mutate h2 b fr') a = cells h1 a
          \<and> map_option (cells (fst (latest_frame (mutate h2 b fr') g1)))
               (snd (latest_frame (mutate h2 b fr') g1)) = Some (cells h1 a)"
    using pre(4) fr
    by (simp add: rd Let_def latest_frame_copy mutate_def)
next
  assume "no_read_succeeds cs (h, GlassCapture_init c)"
  then have "latest_slot (snd (run_calls cs (h, GlassCapture_init c))) = None"
    by (simp add: run_calls_slot_none GlassCapture_init_def)
  then show "latest_frame (fst (run_calls cs (h, GlassCapture_init c)))
                     (snd (run_calls cs (h, GlassCapture_init c)))
          = (fst (run_calls cs (h, GlassCapture_init c)), None)"
    by (rule latest_frame_empty)
qed

text \<open>
  Witness for C2: one read on the started default capture, a copy, a write into the
  copy; and a history of calls with two failed reads.
\<close>

theorem read_frame_fills_slot_witness:
  "snd (snd (read_frame env_ok heap0 capture_started)) = Some 0
   \<and> latest_slot (fst (snd (read_frame env_ok heap0 capture_started))) = Some 0
   \<and> cells (fst (read_frame env_ok heap0 capture_started)) 0 = frame_small
   \<and> snd (latest_frame (fst (read_frame env_ok heap0 capture_started))
                          (fst (snd (read_frame env_ok heap0 capture_started)))) = Some 1
   \<and> cells (fst (latest_frame (fst (read_frame env_ok heap0 capture_started))
                                 (fst (snd (read_frame env_ok heap0 capture_started))))) 1 = frame_small
   \<and> cells (mutate (fst (latest_frame (fst (read_frame env_ok heap0 capture_started))
                                         (fst (snd (read_frame env_ok heap0 capture_started)))))
                   1 frame_hd) 0 = frame_small
   \<and> no_read_succeeds
        [CallLatest, CallRead env_ok, CallStart env_ok, CallRead env_down, CallStop, CallLatest]
        (heap0, GlassCapture_init CaptureConfig_default)
   \<and> snd (latest_frame
        (fst (run_calls
           [CallLatest, CallRead env_ok, CallStart env_ok, CallRead env_down, CallStop, CallLatest]
           (heap0, GlassCapture_init CaptureConfig_default)))
        (snd (run_calls
           [CallLatest, CallRead env_ok, CallStart env_ok, CallRead env_down, CallStop, CallLatest]
           (heap0, GlassCapture_init CaptureConfig_default)))) = None"
proof -
  have rd: "read_frame env_ok heap0 capture_started =
     (heap0\<lparr>cells := (cells heap0)(0 := frame_small), next_addr := Suc 0\<rparr>,
      capture_started\<lparr>latest_slot := Some 0\<rparr>, Some 0)"
    using read_frame_success [of capture_started env_ok frame_small heap0]
    by (simp add: capture_started_eq env_ok_def heap0_def)
  have ok: "snd (snd (read_frame env_ok heap0 capture_started)) = Some 0"
    by (simp add: rd)
  have s1: "start env_ok (GlassCapture_init CaptureConfig_default) = (capture_started,
       [AdbDevices [], CapOpen (AdbPipeline [] 1280 720)], Inr ())"
    by (simp add: capture_started_def start_def start_adb_def Let_def GlassCapture_init_def
      CaptureConfig_default_def env_ok_def after_first_newline_def)
  have nr: "no_read_succeeds
        [CallLatest, CallRead env_ok, CallStart env_ok, CallRead env_down, CallStop, CallLatest]
        (heap0, GlassCapture_init CaptureConfig_default)"
    by (simp add: exec_call_def latest_frame_def read_frame_def s1 capture_started_eq
        GlassCapture_init_def env_down_def)
  have cr: "cap_read env_ok = Some frame_small"
    by (simp add: env_ok_def)
  show ?thesis
    using ok nr
      read_frame_fills_slot [of env_ok heap0 capture_started 0 frame_hd
        "[CallLatest, CallRead env_ok, CallStart env_ok, CallRead env_down, CallStop, CallLatest]"
        CaptureConfig_default]
    by (simp add: Let_def rd cr)
qed

subsection \<open>C10: stop keeps the slot\<close>

text \<open>
  Claim C10. \<^verbatim>\<open>stop()\<close> does not clear the slot: \<^verbatim>\<open>latest_frame\<close> answers
  after \<^verbatim>\<open>stop()\<close> what it answered before, and no read after \<^verbatim>\<open>stop()\<close>
  can replace the slot's frame. So once a \<^verbatim>\<open>read_frame\<close> has returned a frame,
  \<^verbatim>\<open>latest_frame\<close> called after \<^verbatim>\<open>stop()\<close> returns a new array with the
  content of the last captured frame.
\<close>

theorem stop_keeps_latest_frame:
  "latest_slot (fst (stop g)) = latest_slot g
   \<and> latest_frame h (fst (stop g)) = latest_frame h g
   \<and> snd (snd (read_frame e' h (fst (stop g)))) = None
   \<and> (snd (snd (read_frame e h g)) = Some a \<longrightarrow>
        (let h1 = fst (read_frame e h g);
             g1 = fst (stop (fst (snd (read_frame e h g))));
             b = next_addr h1
         in cap_read e = Some (cells h1 a)
            \<and> latest_slot g1 = Some a
            \<and> snd (latest_frame h1 g1) = Some b
            \<and> b \<noteq> a
            \<and> cells (fst (latest_frame h1 g1)) b = cells h1 a))"
proof (intro conjI impI)
  show slot: "latest_slot (fst (stop g)) = latest_slot g"
    by (rule stop_latest_slot)
  then show "latest_frame h (fst (stop g)) = latest_frame h g"
    by (simp add: latest_frame_def)
  show "snd (snd (read_frame e' h (fst (stop g)))) = None"
    by (simp add: read_frame_def stop_def Let_def split: option.splits)
next
  assume ok: "snd (snd (read_frame e h g)) = Some a"
  then have pre: "cap g \<noteq> None" "running g" "cap_read e \<noteq> None" "a = next_addr h"
    using read_frame_result [of e h g a] by simp_all
  then obtain fr where fr: "cap_read e = Some fr"
    by auto
  have rd: "read_frame e h g =
     (h\<lparr>cells := (cells h)(next_addr h := fr), next_addr := Suc (next_addr h)\<rparr>,
      g\<lparr>latest_slot := Some (next_addr h)\<rparr>, Some (next_addr h))"
    using pre(1,2) fr by (rule read_frame_success)
  have sl: "latest_slot (fst (stop (g\<lparr>latest_slot := Some (next_addr h)\<rparr>))) = Some (next_addr h)"
    by (simp add: stop_latest_slot)
  show "let h1 = fst (read_frame e h g);
             g1 = fst (stop (fst (snd (read_frame e h g))));
             b = next_addr h1
         in cap_read e = Some (cells h1 a)
            \<and> latest_slot g1 = Some a
            \<and> snd (latest_frame h1 g1) = Some b
            \<and> b \<noteq> a
            \<and> cells (fst (latest_frame h1 g1)) b = cells h1 a"
    using pre(4) fr sl
    by (simp add: rd Let_def latest_frame_copy)
qed

text \<open>Witness for C10: read one frame, stop, ask for the latest frame.\<close>

theorem stop_keeps_latest_frame_witness:
  "snd (snd (read_frame env_ok heap0 capture_started)) = Some 0
   \<and> latest_slot (fst (stop (fst (snd (read_frame env_ok heap0 capture_started))))) = Some 0
   \<and> running (fst (stop (fst (snd (read_frame env_ok heap0 capture_started))))) = False
   \<and> snd (latest_frame (fst (read_frame env_ok heap0 capture_started))
            (fst (stop (fst (snd (read_frame env_ok heap0 capture_started)))))) = Some 1
   \<and> cells (fst (latest_frame (fst (read_frame env_ok heap0 capture_started))
            (fst (stop (fst (snd (read_frame env_ok heap0 capture_started))))))) 1 = frame_small"
proof -
  have rd: "read_frame env_ok heap0 capture_started =
     (heap0\<lparr>cells := (cells heap0)(0 := frame_small), next_addr := Suc 0\<rparr>,
      capture_started\<lparr>latest_slot := Some 0\<rparr>, Some 0)"
    using read_frame_success [of capture_started env_ok frame_small heap0]
    by (simp add: capture_started_eq env_ok_def heap0_def)
  have ok: "snd (snd (read_frame env_ok heap0 capture_started)) = Some 0"
    by (simp add: rd)
  have st: "running (fst (stop (capture_started\<lparr>latest_slot := Some 0\<rparr>))) = False"
    by (simp add: stop_def Let_def split: option.splits)
  show ?thesis
    using ok st stop_keeps_latest_frame [of capture_started heap0 env_ok env_ok 0]
    by (simp add: Let_def rd)
qed

subsection \<open>C7: stopping and closing twice\<close>

text \<open>
  Claim C7. A second \<^verbatim>\<open>stop()\<close> right after a \<^verbatim>\<open>stop()\<close> leaves the capture
  object as the first left it and makes no outside call; so does a second
  \<^verbatim>\<open>close()\<close> right after a \<^verbatim>\<open>close()\<close> for the recorder. Two calls in a row
  end in the state one call ends in.
\<close>

theorem stop_and_close_idempotent:
  "stop (fst (stop g)) = (fst (stop g), [])
   \<and> run_calls [CallStop, CallStop] (h, g) = run_calls [CallStop] (h, g)
   \<and> storage_close (fst (storage_close s)) = (fst (storage_close s), [])
   \<and> run_storage [DoClose, DoClose] s = run_storage [DoClose] s"
proof -
  have a: "stop (fst (stop g)) = (fst (stop g), [])"
    by (simp add: stop_def Let_def split: option.splits)
  have b: "storage_close (fst (storage_close s)) = (fst (storage_close s), [])"
    by (simp add: storage_close_def split: option.splits)
  from a b show ?thesis
    by (simp add: exec_call_def exec_storage_def)
qed

text \<open>Witness for C7: the started capture with its device, the open 1 MB recorder.\<close>

theorem stop_and_close_idempotent_witness:
  "stop (fst (stop capture_started)) = (fst (stop capture_started), [])
   \<and> snd (stop capture_started) = [CapRelease \<lparr>vc_source = AdbPipeline [] 1280 720, vc_opened = True\<rparr>]
   \<and> storage_close (fst (storage_close storage_1mb)) = (fst (storage_close storage_1mb), [])
   \<and> snd (storage_close storage_1mb) =
       [WriterRelease \<lparr>vw_path = ''recordings/routeball_20240101_120000.mp4'', vw_fourcc = ''mp4v'',
                        vw_fps = 30, vw_size = (1280, 720), vw_opened = True\<rparr>]"
proof -
  have a: "snd (stop capture_started) =
      [CapRelease \<lparr>vc_source = AdbPipeline [] 1280 720, vc_opened = True\<rparr>]"
    by (simp add: capture_started_eq stop_def Let_def)
  have b: "snd (storage_close storage_1mb) =
       [WriterRelease \<lparr>vw_path = ''recordings/routeball_20240101_120000.mp4'', vw_fourcc = ''mp4v'',
                        vw_fps = 30, vw_size = (1280, 720), vw_opened = True\<rparr>]"
    by (simp add: storage_1mb_eq storage_close_def)
  show ?thesis
    using a b stop_and_close_idempotent [of capture_started heap0 storage_1mb]
    by simp
qed

subsection \<open>Live view: passes of the MJPEG loop\<close>

lemma mjpeg_iteration_no_source: "mjpeg_iteration q e h None = (h, [], Retry)"
  by (simp add: mjpeg_iteration_def)

lemma mjpeg_iteration_no_frame:
  "latest_slot g = None \<Longrightarrow> mjpeg_iteration q e h (Some g) = (h, [], Retry)"
  by (simp add: mjpeg_iteration_def latest_frame_empty)

lemma generate_mjpeg_idle:
  "list_all no_frame obs \<Longrightarrow> generate_mjpeg q obs = ([], [])"
proof (induction obs)
  case Nil
  then show ?case by simp
next
  case (Cons ob obs)
  obtain e h src where ob: "ob = (e, h, src)"
    by (cases ob) auto
  from Cons.prems ob have "mjpeg_iteration q e h src = (h, [], Retry)"
    by (cases src) (simp_all add: no_frame_def mjpeg_iteration_no_source mjpeg_iteration_no_frame)
  moreover from Cons have "generate_mjpeg q obs = ([], [])"
    by simp
  ultimately show ?case
    using ob by simp
qed

subsection \<open>C4: the MJPEG loop when no frame is available\<close>

text \<open>
  Claim C4 as stated (a pass that finds no frame performs a yield, sleep or backoff
  before it retries) fails: such a pass makes no call at all. With no source attached,
  and with a source that has captured nothing, the body reaches \<^verbatim>\<open>continue\<close> with
  an empty list of outside calls, and three such passes in a row yield nothing and call
  nothing.
\<close>

theorem mjpeg_idle_pass_pauses_counterexample:
  "mjpeg_iteration 80 env_ok heap0 None = (heap0, [], Retry)
   \<and> mjpeg_iteration 80 env_ok heap0 (Some capture_started) = (heap0, [], Retry)
   \<and> generate_mjpeg 80
        [(env_ok, heap0, None), (env_ok, heap0, Some capture_started), (env_ok, heap0, None)]
       = ([], [])"
  by (simp add: mjpeg_iteration_def latest_frame_def capture_started_eq)

text \<open>
  Claim C4, amended. In the MJPEG generator loop, a pass in which no frame is available
  (no source attached, or no frame captured yet) emits nothing, makes no outside call
  and leaves the store as it is; the loop goes straight to its next pass. Any run of
  such passes yields no part and makes no call: the loop polls without pause.
\<close>

theorem mjpeg_idle_pass_retries_at_once:
  "mjpeg_iteration q e h None = (h, [], Retry)
   \<and> (latest_slot g = None \<longrightarrow> mjpeg_iteration q e h (Some g) = (h, [], Retry))
   \<and> (no_frame (e, h, src) \<longrightarrow> generate_mjpeg q ((e, h, src) # obs) = generate_mjpeg q obs)
   \<and> (list_all no_frame obs \<longrightarrow> generate_mjpeg q obs = ([], []))"
proof (intro conjI impI)
  show "mjpeg_iteration q e h None = (h, [], Retry)"
    by (rule mjpeg_iteration_no_source)
next
  assume "latest_slot g = None"
  then show "mjpeg_iteration q e h (Some g) = (h, [], Retry)"
    by (rule mjpeg_iteration_no_frame)
next
  assume "no_frame (e, h, src)"
  then have "mjpeg_iteration q e h src = (h, [], Retry)"
    by (cases src) (simp_all add: no_frame_def mjpeg_iteration_no_source mjpeg_iteration_no_frame)
  then show "generate_mjpeg q ((e, h, src) # obs) = generate_mjpeg q obs"
    by simp
next
  assume "list_all no_frame obs"
  then show "generate_mjpeg q obs = ([], [])"
    by (rule generate_mjpeg_idle)
qed

text \<open>Witness for C4: a source that is attached and running but has captured nothing.\<close>

theorem mjpeg_idle_pass_retries_at_once_witness:
  "latest_slot capture_started = None
   \<and> mjpeg_iteration 80 env_ok heap0 (Some capture_started) = (heap0, [], Retry)
   \<and> no_frame (env_ok, heap0, Some capture_started)
   \<and> list_all no_frame [(env_ok, heap0, None), (env_ok, heap0, Some capture_started)]
   \<and> generate_mjpeg 80 [(env_ok, heap0, None), (env_ok, heap0, Some capture_started)] = ([], [])"
proof -
  have a: "latest_slot capture_started = None"
    by (simp add: capture_started_eq)
  then have b: "no_frame (env_ok, heap0, Some capture_started)"
    by (simp add: no_frame_def)
  then have c: "list_all no_frame [(env_ok, heap0, None), (env_ok, heap0, Some capture_started)]"
    by (simp add: no_frame_def)
  show ?thesis
    using a b c
      mjpeg_idle_pass_retries_at_once [of 80 env_ok heap0 capture_started "Some capture_started"
        "[(env_ok, heap0, None), (env_ok, heap0, Some capture_started)]"]
    by (simp del: generate_mjpeg.simps)
qed

subsection \<open>C5: the snapshot responder\<close>

text \<open>
  Claim C5 as stated fails in its last part: after a source is attached and a read has
  succeeded, the responder still returns an error value, not an image, when
  \<^verbatim>\<open>cv2.imencode\<close> reports \<^verbatim>\<open>ret = False\<close> (the third guard of
  \<^verbatim>\<open>snapshot\<close>).
\<close>

theorem snapshot_after_read_counterexample:
  "snd (snd (read_frame env_ok heap0 capture_started)) = Some 0
   \<and> snd (snapshot env_down (fst (read_frame env_ok heap0 capture_started))
            (Some (fst (snd (read_frame env_ok heap0 capture_started)))))
       = JsonError ''Failed to encode frame''"
  by (simp add: read_frame_def capture_started_eq env_ok_def alloc_def snapshot_def
      latest_frame_def env_down_def heap0_def)

text \<open>
  Claim C5, amended. With no frame source attached, and with a source on which no read
  has returned a frame yet, the snapshot responder returns an error value (\<open>No capture
  source available\<close>, \<open>No frame available\<close>) and raises nothing. After a source is
  attached and a read has succeeded, it returns the JPEG bytes of that frame, encoded
  at quality 90, when the encoder reports success, and the error value \<open>Failed to
  encode frame\<close> when the encoder reports failure.
\<close>

theorem snapshot_responses:
  "snapshot e h None = (h, JsonError ''No capture source available'')
   \<and> (latest_slot g = None \<longrightarrow> snapshot e h (Some g) = (h, JsonError ''No frame available''))
   \<and> (no_read_succeeds cs (h, GlassCapture_init c) \<longrightarrow>
        snd (snapshot e (fst (run_calls cs (h, GlassCapture_init c)))
               (Some (snd (run_calls cs (h, GlassCapture_init c)))))
          = JsonError ''No frame available'')
   \<and> (snd (snd (read_frame e0 h g)) = Some a \<longrightarrow>
        snd (snapshot e (fst (read_frame e0 h g)) (Some (fst (snd (read_frame e0 h g)))))
          = (if fst (imencode e (cells (fst (read_frame e0 h g)) a) 90)
             then JpegImage (snd (imencode e (cells (fst (read_frame e0 h g)) a) 90))
             else JsonError ''Failed to encode frame''))"
proof (intro conjI impI)
  show "snapshot e h None = (h, JsonError ''No capture source available'')"
    by (simp add: snapshot_def)
next
  assume "latest_slot g = None"
  then show "snapshot e h (Some g) = (h, JsonError ''No frame available'')"
    by (simp add: snapshot_def latest_frame_empty)
next
  assume "no_read_succeeds cs (h, GlassCapture_init c)"
  then have "latest_slot (snd (run_calls cs (h, GlassCapture_init c))) = None"
    by (simp add: run_calls_slot_none GlassCapture_init_def)
  then show "snd (snapshot e (fst (run_calls cs (h, GlassCapture_init c)))
               (Some (snd (run_calls cs (h, GlassCapture_init c)))))
          = JsonError ''No frame available''"
    by (simp add: snapshot_def latest_frame_empty)
next
  assume ok: "snd (snd (read_frame e0 h g)) = Some a"
  then have pre: "cap g \<noteq> None" "running g" "cap_read e0 \<noteq> None" "a = next_addr h"
    using read_frame_result [of e0 h g a] by simp_all
  then obtain fr where fr: "cap_read e0 = Some fr"
    by auto
  have rd: "read_frame e0 h g =
     (h\<lparr>cells := (cells h)(next_addr h := fr), next_addr := Suc (next_addr h)\<rparr>,
      g\<lparr>latest_slot := Some (next_addr h)\<rparr>, Some (next_addr h))"
    using pre(1,2) fr by (rule read_frame_success)
  show "snd (snapshot e (fst (read_frame e0 h g)) (Some (fst (snd (read_frame e0 h g)))))
          = (if fst (imencode e (cells (fst (read_frame e0 h g)) a) 90)
             then JpegImage (snd (imencode e (cells (fst (read_frame e0 h g)) a) 90))
             else JsonError ''Failed to encode frame'')"
    using pre(4)
    by (simp add: rd snapshot_def latest_frame_copy split: prod.splits)
qed

text \<open>
  Witness for C5: a started source with an empty slot, a history with a failed read,
  and a successful read followed by a snapshot with a working encoder.
\<close>

theorem snapshot_responses_witness:
  "latest_slot capture_started = None
   \<and> snapshot env_ok heap0 (Some capture_started) = (heap0, JsonError ''No frame available'')
   \<and> no_read_succeeds [CallStart env_ok, CallRead env_down] (heap0, GlassCapture_init CaptureConfig_default)
   \<and> snd (snapshot env_ok
        (fst (run_calls [CallStart env_ok, CallRead env_down] (heap0, GlassCapture_init CaptureConfig_default)))
        (Some (snd (run_calls [CallStart env_ok, CallRead env_down]
                 (heap0, GlassCapture_init CaptureConfig_default)))))
       = JsonError ''No frame available''
   \<and> snd (snd (read_frame env_ok heap0 capture_started)) = Some 0
   \<and> snd (snapshot env_ok (fst (read_frame env_ok heap0 capture_started))
            (Some (fst (snd (read_frame env_ok heap0 capture_started)))))
       = JpegImage [255, 216, 255, 217]"
proof -
  have a: "latest_slot capture_started = None"
    by (simp add: capture_started_eq)
  have s1: "start env_ok (GlassCapture_init CaptureConfig_default) = (capture_started,
       [AdbDevices [], CapOpen (AdbPipeline [] 1280 720)], Inr ())"
    by (simp add: capture_started_def start_def start_adb_def Let_def GlassCapture_init_def
      CaptureConfig_default_def env_ok_def after_first_newline_def)
  have nr: "no_read_succeeds [CallStart env_ok, CallRead env_down]
        (heap0, GlassCapture_init CaptureConfig_default)"
    by (simp add: exec_call_def read_frame_def s1 env_down_def)
  have rd: "read_frame env_ok heap0 capture_started =
     (heap0\<lparr>cells := (cells heap0)(0 := frame_small), next_addr := Suc 0\<rparr>,
      capture_started\<lparr>latest_slot := Some 0\<rparr>, Some 0)"
    using read_frame_success [of capture_started env_ok frame_small heap0]
    by (simp add: capture_started_eq env_ok_def heap0_def)
  have ok: "snd (snd (read_frame env_ok heap0 capture_started)) = Some 0"
    by (simp add: rd)
  have enc: "imencode env_ok = (\<lambda>fr q. (True, [255, 216, 255, 217]))"
    by (simp add: env_ok_def)
  show ?thesis
    using a nr ok
      snapshot_responses [of env_ok heap0 capture_started "[CallStart env_ok, CallRead env_down]"
        CaptureConfig_default env_ok 0]
    by (simp add: enc del: run_calls.simps no_read_succeeds.simps)
qed

subsection \<open>The main thread\<close>

lemma run_ended: "ended ms \<Longrightarrow> run ins ms = ms"
  by (induction ins) (simp_all add: step_def)

lemma run_append: "run (ins @ js) ms = run js (run ins ms)"
  by (induction ins arbitrary: ms) simp_all

lemma shutdown_pc: "pc (shutdown ms) = Exited 0"
  by (simp add: shutdown_def split: prod.splits)

lemma step_signal: "\<not> ended ms \<Longrightarrow> pc (step Signal ms) = Exited 0"
  by (simp add: step_def shutdown_pc)

lemma ended_exited: "pc ms = Exited n \<Longrightarrow> ended ms"
  by (simp add: ended_def)

lemma start_cap_opens: "cap_opens_in (fst (snd (start e g))) \<le> 1"
  by (simp add: start_def start_rtsp_def start_adb_def Let_def cap_opens_in_def)

lemma do_start_connection_error:
  "snd (snd (start e (m_capture ms))) = Inl ConnectionError \<Longrightarrow>
   do_start e ms =
     ms\<lparr>m_capture := fst (start e (m_capture ms)),
        m_effects := m_effects ms @ fst (snd (start e (m_capture ms))),
        pc := Exited 1\<rparr>"
  by (cases "start e (m_capture ms)") (simp add: do_start_def)

lemma main_init_fields:
  "pc (main_init a h) = AtStart"
  "m_capture (main_init a h) = GlassCapture_init (capture (make_config a))"
  "m_effects (main_init a h) = []"
  by (simp_all add: main_init_def Let_def)

lemma start_env_down:
  "start env_down (GlassCapture_init (capture (make_config Args_default))) =
     (GlassCapture_init (capture (make_config Args_default)), [AdbDevices []], Inl ConnectionError)"
  by (simp add: start_def start_adb_def Let_def GlassCapture_init_def make_config_def
      Args_default_def env_down_def after_first_newline_def)

lemma main_started:
  "capture (make_config a) = CaptureConfig_default \<Longrightarrow>
   main a heap0 [Tick env_ok] =
     (main_init a heap0)
       \<lparr>m_capture := capture_started,
        m_effects := [AdbDevices [], CapOpen (AdbPipeline [] 1280 720)],
        pc := AtOpen\<rparr>"
proof -
  assume c: "capture (make_config a) = CaptureConfig_default"
  have s1: "start env_ok (GlassCapture_init CaptureConfig_default) = (capture_started,
       [AdbDevices [], CapOpen (AdbPipeline [] 1280 720)], Inr ())"
    by (simp add: capture_started_def start_def start_adb_def Let_def GlassCapture_init_def
      CaptureConfig_default_def env_ok_def after_first_newline_def)
  show ?thesis
    by (simp add: main_def step_def ended_def main_init_fields do_start_def c s1)
qed

lemma step_tick:
  "\<not> ended ms \<Longrightarrow>
   step (Tick e) ms =
     (case pc ms of
        AtStart \<Rightarrow> do_start e ms
      | AtOpen \<Rightarrow> do_open e ms
      | AtServe \<Rightarrow> do_serve ms
      | InLoop \<Rightarrow> do_loop e ms
      | _ \<Rightarrow> ms)"
  by (simp add: step_def)

text \<open>
  \<^verbatim>\<open>main\<close> builds the storage configuration from \<^verbatim>\<open>args.output_dir\<close>, a
  \<^verbatim>\<open>str\<close>. With local saving on, \<^verbatim>\<open>storage.open\<close> therefore raises
  \<open>AttributeError\<close> at \<^verbatim>\<open>mkdir\<close>, and nothing catches it: the process started
  with the default arguments ends there, whatever the device and the file system do.
\<close>

lemma do_open_str:
  "m_storage ms = Some s \<Longrightarrow> output_dir (config s) = StrObj x \<Longrightarrow>
   pc (do_open e ms) = Crashed AttributeError"
  by (simp add: do_open_def storage_open_str Let_def)

lemma main_saving_dies_at_open:
  assumes "\<not> no_save a" and "pc (main a h [Tick e]) = AtOpen"
  shows "pc (main a h [Tick e, Tick e']) = Crashed AttributeError"
proof -
  let ?s1 = "main a h [Tick e]"
  have st: "main a h [Tick e] = do_start e (main_init a h)"
    by (simp add: main_def step_def ended_def main_init_fields)
  have "m_storage ?s1 =
      Some (VideoStorage_init (StorageConfig_default\<lparr>output_dir := StrObj (arg_output_dir a)\<rparr>))"
    using assms(1)
    by (cases "start e (m_capture (main_init a h))")
      (simp add: st do_start_def main_init_def Let_def make_config_def)
  moreover have "output_dir (config (VideoStorage_init
      (StorageConfig_default\<lparr>output_dir := StrObj (arg_output_dir a)\<rparr>))) = StrObj (arg_output_dir a)"
    by (simp add: VideoStorage_init_def)
  ultimately have "pc (do_open e' ?s1) = Crashed AttributeError"
    by (rule do_open_str)
  moreover from assms(2) have "\<not> ended ?s1"
    by (simp add: ended_def)
  then have "step (Tick e') ?s1 = do_open e' ?s1"
    using assms(2) by (simp add: step_tick)
  moreover have "main a h [Tick e, Tick e'] = step (Tick e') ?s1"
    by (simp add: main_def)
  ultimately show ?thesis
    by simp
qed

lemma main_default_dies_at_open:
  "pc (main Args_default heap0 [Tick env_ok, Tick env_ok]) = Crashed AttributeError"
proof -
  have c: "capture (make_config Args_default) = CaptureConfig_default"
    by (simp add: make_config_def Args_default_def CaptureConfig_default_def)
  have "pc (main Args_default heap0 [Tick env_ok]) = AtOpen"
    by (simp add: main_started [OF c])
  moreover have "\<not> no_save Args_default"
    by (simp add: Args_default_def)
  ultimately show ?thesis
    by (simp add: main_saving_dies_at_open)
qed

lemma do_loop_no_storage:
  "running (m_capture ms) \<Longrightarrow> m_storage ms = None \<Longrightarrow> pc (do_loop e ms) = pc ms"
  by (cases "read_frame e (m_heap ms) (m_capture ms)")
    (simp add: do_loop_def split: option.splits)

text \<open>
  With \<^verbatim>\<open>--no-save\<close> there is no recorder: the process starts the capture, passes
  \<^verbatim>\<open>if storage:\<close>, starts the server and is in the loop after its first frame.
\<close>

lemma main_no_save_in_loop:
  "pc (main Args_no_save heap0 [Tick env_ok, Tick env_ok, Tick env_ok, Tick env_ok]) = InLoop"
proof -
  let ?s1 = "main Args_no_save heap0 [Tick env_ok]"
  have c: "capture (make_config Args_no_save) = CaptureConfig_default"
    by (simp add: make_config_def Args_no_save_def Args_default_def CaptureConfig_default_def)
  have ms: "?s1 =
     (main_init Args_no_save heap0)
       \<lparr>m_capture := capture_started,
        m_effects := [AdbDevices [], CapOpen (AdbPipeline [] 1280 720)],
        pc := AtOpen\<rparr>"
    by (rule main_started [OF c])
  have st0: "m_storage (main_init Args_no_save heap0) = None"
    by (simp add: main_init_def Let_def make_config_def Args_no_save_def Args_default_def)
  have f1: "pc ?s1 = AtOpen" "m_capture ?s1 = capture_started" "m_storage ?s1 = None"
    by (simp_all add: ms st0)
  have n1: "\<not> ended ?s1"
    by (simp add: ended_def f1)
  define s2 where "s2 = step (Tick env_ok) ?s1"
  have s2: "s2 = do_open env_ok ?s1"
    by (simp add: s2_def step_tick [OF n1] f1)
  have f2: "pc s2 = AtServe" "m_capture s2 = capture_started" "m_storage s2 = None"
    by (simp_all add: s2 do_open_def f1)
  have n2: "\<not> ended s2"
    by (simp add: ended_def f2)
  define s3 where "s3 = step (Tick env_ok) s2"
  have s3: "s3 = do_serve s2"
    by (simp add: s3_def step_tick [OF n2] f2)
  have f3: "pc s3 = InLoop" "m_capture s3 = capture_started" "m_storage s3 = None"
    by (simp_all add: s3 do_serve_def f2)
  have n3: "\<not> ended s3"
    by (simp add: ended_def f3)
  have r: "running (m_capture s3)"
    by (simp add: f3 capture_started_eq)
  have "pc (do_loop env_ok s3) = InLoop"
    using do_loop_no_storage [OF r f3(3)] f3(1) by simp
  then have "pc (step (Tick env_ok) s3) = InLoop"
    by (simp add: step_tick [OF n3] f3)
  moreover have "main Args_no_save heap0 [Tick env_ok, Tick env_ok, Tick env_ok, Tick env_ok]
      = step (Tick env_ok) s3"
    by (simp add: main_def s3_def s2_def)
  ultimately show ?thesis
    by simp
qed

subsection \<open>C8: exit codes\<close>

text \<open>
  Claim C8. If \<^verbatim>\<open>capture.start()\<close> raises \<open>ConnectionError\<close> at startup, the
  process ends with exit code 1 and does nothing more: whatever comes after, the run
  is the run of that one attempt, its outside calls are those of the single
  \<^verbatim>\<open>start()\<close>, and at most one capture device was opened (no retry). A termination
  signal that reaches a process that has not ended, wherever its main thread is, ends
  it with exit code 0.
\<close>

theorem exit_codes:
  "(snd (snd (start e (GlassCapture_init (capture (make_config a))))) = Inl ConnectionError \<longrightarrow>
      pc (main a h (Tick e # rest)) = Exited 1
      \<and> main a h (Tick e # rest) = main a h [Tick e]
      \<and> m_effects (main a h (Tick e # rest))
          = fst (snd (start e (GlassCapture_init (capture (make_config a)))))
      \<and> cap_opens_in (m_effects (main a h (Tick e # rest))) \<le> 1)
   \<and> (\<not> ended (main a h ins) \<longrightarrow>
        pc (main a h (ins @ Signal # rest)) = Exited 0)"
proof (intro conjI impI)
  assume ce: "snd (snd (start e (GlassCapture_init (capture (make_config a))))) = Inl ConnectionError"
  have ne: "\<not> ended (main_init a h)"
    by (simp add: ended_def main_init_fields)
  have st: "step (Tick e) (main_init a h) =
      (main_init a h)\<lparr>m_capture := fst (start e (GlassCapture_init (capture (make_config a)))),
        m_effects := fst (snd (start e (GlassCapture_init (capture (make_config a))))),
        pc := Exited 1\<rparr>"
    using ne ce do_start_connection_error [of e "main_init a h"]
    by (simp add: step_def main_init_fields)
  then have en: "ended (step (Tick e) (main_init a h))"
    by (simp add: ended_def)
  have all: "main a h (Tick e # rest) = step (Tick e) (main_init a h)"
    by (simp add: main_def run_ended [OF en])
  show "pc (main a h (Tick e # rest)) = Exited 1"
    by (simp add: all st)
  show "main a h (Tick e # rest) = main a h [Tick e]"
    using all by (simp add: main_def)
  show "m_effects (main a h (Tick e # rest))
          = fst (snd (start e (GlassCapture_init (capture (make_config a)))))"
    by (simp add: all st)
  then show "cap_opens_in (m_effects (main a h (Tick e # rest))) \<le> 1"
    using start_cap_opens [of e "GlassCapture_init (capture (make_config a))"] by simp
next
  assume "\<not> ended (main a h ins)"
  then have "pc (step Signal (main a h ins)) = Exited 0"
    by (rule step_signal)
  then have p: "pc (step Signal (run ins (main_init a h))) = Exited 0"
    by (simp add: main_def)
  then have "ended (step Signal (run ins (main_init a h)))"
    by (rule ended_exited)
  then have "run rest (step Signal (run ins (main_init a h))) = step Signal (run ins (main_init a h))"
    by (rule run_ended)
  with p show "pc (main a h (ins @ Signal # rest)) = Exited 0"
    by (simp add: main_def run_append)
qed

text \<open>
  Witness for C8: with no device listed by \<^verbatim>\<open>adb devices\<close> the process exits
  with 1 after the one \<^verbatim>\<open>adb devices\<close> call; a process run with
  \<^verbatim>\<open>--no-save\<close> that has started, started the server and captured one frame
  exits with 0 on a signal.
\<close>

theorem exit_codes_witness:
  "snd (snd (start env_down (GlassCapture_init (capture (make_config Args_default)))))
     = Inl ConnectionError
   \<and> pc (main Args_default heap0 [Tick env_down, Tick env_ok, Signal, Tick env_ok]) = Exited 1
   \<and> m_effects (main Args_default heap0 [Tick env_down, Tick env_ok, Signal, Tick env_ok])
       = [AdbDevices []]
   \<and> pc (main Args_no_save heap0 [Tick env_ok, Tick env_ok, Tick env_ok, Tick env_ok]) = InLoop
   \<and> pc (main Args_no_save heap0
           ([Tick env_ok, Tick env_ok, Tick env_ok, Tick env_ok] @ Signal # [Tick env_ok]))
       = Exited 0"
proof -
  have ce: "snd (snd (start env_down (GlassCapture_init (capture (make_config Args_default)))))
     = Inl ConnectionError"
    by (simp add: start_env_down)
  have p: "pc (main Args_no_save heap0 [Tick env_ok, Tick env_ok, Tick env_ok, Tick env_ok]) = InLoop"
    by (rule main_no_save_in_loop)
  then have ne: "\<not> ended (main Args_no_save heap0 [Tick env_ok, Tick env_ok, Tick env_ok, Tick env_ok])"
    by (simp add: ended_def)
  note first = exit_codes [where e = env_down and a = Args_default and h = heap0
        and rest = "[Tick env_ok, Signal, Tick env_ok]" and ins = "[]"]
  note second = exit_codes [where e = env_ok and a = Args_no_save and h = heap0
        and ins = "[Tick env_ok, Tick env_ok, Tick env_ok, Tick env_ok]" and rest = "[Tick env_ok]"]
  from first ce
  have a1: "pc (main Args_default heap0 [Tick env_down, Tick env_ok, Signal, Tick env_ok]) = Exited 1"
    by blast
  from first ce
  have a2: "m_effects (main Args_default heap0 [Tick env_down, Tick env_ok, Signal, Tick env_ok])
       = fst (snd (start env_down (GlassCapture_init (capture (make_config Args_default)))))"
    by blast
  from second ne
  have b: "pc (main Args_no_save heap0
           ([Tick env_ok, Tick env_ok, Tick env_ok, Tick env_ok] @ Signal # [Tick env_ok]))
       = Exited 0"
    by blast
  from ce a1 a2 p b show ?thesis
    by (simp only: start_env_down fst_conv snd_conv simp_thms)
qed

end
